theory Spec2Isabelle
  imports Complex_Main "HOL-Library.Sublist" "HOL-Library.Multiset"
    "HOL-Library.List_Lexorder" "HOL-Library.Char_ord"
begin

section \<open>Data model\<close>

text \<open>
  A profile is one object of the array in \<^verbatim>\<open>/data/profiles.json\<close>. Every field may be
  missing from the object, so every field is an option; the scripts read them through
  \<^verbatim>\<open>x || default\<close>. A string is well-formed Unicode text, given as the list of its UTF-8
  bytes; counts are integers. The fields \<^verbatim>\<open>note\<close> and \<^verbatim>\<open>instance\<close> are \<open>note_field\<close> and
  \<open>instance_field\<close> here.
\<close>

record profile =
  username :: "string option"
  display_name :: "string option"
  note_field :: "string option"
  avatar :: "string option"
  statuses_count :: "int option"
  followers_count :: "int option"
  following_count :: "int option"
  last_status_at :: "string option"
  created_at :: "string option"
  instance_field :: "string option"
  acct :: "string option"

text \<open>
  \<^verbatim>\<open>s || d\<close> on a string field: a missing field and the empty string are both falsy.
  \<^verbatim>\<open>n || 0\<close> on a count: a missing field and 0 both give 0.
\<close>

definition str_or :: "string option \<Rightarrow> string \<Rightarrow> string" where
  "str_or v d = (case v of None \<Rightarrow> d | Some s \<Rightarrow> if s = [] then d else s)"

definition num_or_0 :: "int option \<Rightarrow> int" where
  "num_or_0 v = (case v of None \<Rightarrow> 0 | Some n \<Rightarrow> n)"

definition truthy :: "string option \<Rightarrow> bool" where
  "truthy v = (case v of None \<Rightarrow> False | Some s \<Rightarrow> s \<noteq> [])"

text \<open>
  What the scripts take from the browser and not from the repository. The collation of
  \<^verbatim>\<open>String.prototype.localeCompare\<close>, the date parser behind \<^verbatim>\<open>new Date(s)\<close>
  (\<open>None\<close> is the invalid date, whose time value is NaN) and the clock \<^verbatim>\<open>Date.now()\<close>,
  given as the reading of its k-th call; times are milliseconds since the epoch. The
  string methods whose result depends on the Unicode tables of the engine:
  \<^verbatim>\<open>toLowerCase\<close>, \<^verbatim>\<open>toUpperCase\<close>, \<^verbatim>\<open>trim\<close> and \<^verbatim>\<open>charAt(0)\<close>, the last one
  giving the first UTF-16 code unit of the string as a string. And \<open>htmlText\<close>, the HTML
  parser: the text content of an element whose \<^verbatim>\<open>innerHTML\<close> was set to the string.
  Nothing is assumed of them in the definitions; a property that needs a fact about one
  of them states it as a hypothesis.
\<close>

record browser =
  localeCompare :: "string \<Rightarrow> string \<Rightarrow> int"
  dateParse :: "string \<Rightarrow> int option"
  dateNow :: "nat \<Rightarrow> int"
  toLowerCase :: "string \<Rightarrow> string"
  toUpperCase :: "string \<Rightarrow> string"
  trim :: "string \<Rightarrow> string"
  charAt0 :: "string \<Rightarrow> string"
  htmlText :: "string \<Rightarrow> string"

section \<open>String built-ins\<close>

text \<open>The letters of ASCII.\<close>

definition upper_letters :: string where
  "upper_letters = ''ABCDEFGHIJKLMNOPQRSTUVWXYZ''"

definition lower_letters :: string where
  "lower_letters = ''abcdefghijklmnopqrstuvwxyz''"

text \<open>
  \<^verbatim>\<open>s.includes(t)\<close>: \<open>t\<close> occurs in \<open>s\<close> as a contiguous run. On well-formed text a run
  of code units is a run of the UTF-8 bytes and the other way round.
\<close>

definition includes_str :: "string \<Rightarrow> string \<Rightarrow> bool" where
  "includes_str s t = sublist t s"

text \<open>\<^verbatim>\<open>n.toString()\<close> on an integer: decimal digits, with a minus sign below zero.\<close>

fun string_of_nat :: "nat \<Rightarrow> string" where
  "string_of_nat n =
     (if n < 10 then [''0123456789'' ! n]
      else string_of_nat (n div 10) @ [''0123456789'' ! (n mod 10)])"

declare string_of_nat.simps [simp del]

definition toString :: "int \<Rightarrow> string" where
  "toString n = (if n < 0 then ''-'' @ string_of_nat (nat (- n)) else string_of_nat (nat n))"

text \<open>
  \<^verbatim>\<open>formatNumber\<close>: the regular expression puts a comma at every position inside the
  digits that has a positive multiple of three digits, and then no digit, to its right.
  \<open>group3\<close> does so on the reversed digits; a minus sign is not a digit and stays in front.
\<close>

fun group3 :: "string \<Rightarrow> string" where
  "group3 (a # b # c # d # ds) = a # b # c # CHR '','' # group3 (d # ds)"
| "group3 ds = ds"

definition formatNumber :: "int \<Rightarrow> string" where
  "formatNumber num =
     (if num < 0 then ''-'' @ rev (group3 (rev (string_of_nat (nat (- num)))))
      else rev (group3 (rev (string_of_nat (nat num)))))"

text \<open>
  \<^verbatim>\<open>escapeHtml\<close> writes the text into a fresh element and reads its \<^verbatim>\<open>innerHTML\<close>: the
  serialisation of a text node, which replaces the ampersand, the angle brackets and the
  no-break space (bytes C2 A0) by entities.
\<close>

fun escapeHtml :: "string \<Rightarrow> string" where
  "escapeHtml [] = []"
| "escapeHtml (c # cs) =
     (if c = CHR ''&'' then ''&amp;'' @ escapeHtml cs
      else if c = CHR ''<'' then ''&lt;'' @ escapeHtml cs
      else if c = CHR ''>'' then ''&gt;'' @ escapeHtml cs
      else if c = CHR 0xC2 then
        (case cs of
           [] \<Rightarrow> [c]
         | d # ds \<Rightarrow> if d = CHR 0xA0 then ''&nbsp;'' @ escapeHtml ds else c # escapeHtml cs)
      else c # escapeHtml cs)"

text \<open>
  \<^verbatim>\<open>stripHtml\<close> hands the string to the browser's HTML parser and reads the text content
  of the element; \<^verbatim>\<open>innerText\<close> and the empty string stand in only for an empty text
  content, and give the empty string again.
\<close>

definition stripHtml :: "browser \<Rightarrow> string \<Rightarrow> string" where
  "stripHtml br html = htmlText br html"

text \<open>
  \<^verbatim>\<open>encodeURIComponent\<close> works on the UTF-8 bytes of the string: letters, digits and
  \<^verbatim>\<open>- _ . ! ~ * ' ( )\<close> are kept, every other byte becomes a percent sign and two upper-case
  hexadecimal digits.
\<close>

definition hex_digit :: "nat \<Rightarrow> char" where
  "hex_digit n = ''0123456789ABCDEF'' ! n"

definition unreserved :: "char \<Rightarrow> bool" where
  "unreserved c =
     (c \<in> set upper_letters \<or> c \<in> set lower_letters \<or> c \<in> set ''0123456789''
      \<or> c \<in> set ''-_.!~*'()'')"

definition encodeURIComponent :: "string \<Rightarrow> string" where
  "encodeURIComponent s =
     concat (map (\<lambda>c. if unreserved c then [c]
                       else [CHR ''%'', hex_digit ((of_char c :: nat) div 16),
                             hex_digit ((of_char c :: nat) mod 16)]) s)"

text \<open>
  \<^verbatim>\<open>Array.prototype.sort\<close> with a comparison function is stable, and sorts by the sign of
  the function's result: \<open>a\<close> stays in front of \<open>b\<close> unless the result is positive. It is
  modelled by the stable insertion sort; with a consistent comparison function every
  conforming engine returns this list.
\<close>

fun insort_cmp :: "('a \<Rightarrow> 'a \<Rightarrow> int) \<Rightarrow> 'a \<Rightarrow> 'a list \<Rightarrow> 'a list" where
  "insort_cmp cmp x [] = [x]"
| "insort_cmp cmp x (y # ys) =
     (if cmp x y \<le> 0 then x # y # ys else y # insort_cmp cmp x ys)"

definition array_sort :: "('a \<Rightarrow> 'a \<Rightarrow> int) \<Rightarrow> 'a list \<Rightarrow> 'a list" where
  "array_sort cmp xs = foldr (insort_cmp cmp) xs []"

section \<open>The profile list page (assets/app.js)\<close>

text \<open>The two letters of the Romanian messages outside ASCII, as their UTF-8 bytes.\<close>

definition a_breve :: string where
  "a_breve = [CHR 0xC4, CHR 0x83]"

definition i_circ :: string where
  "i_circ = [CHR 0xC3, CHR 0xAE]"

text \<open>
  The page state. \<^verbatim>\<open>profilesData\<close> and \<^verbatim>\<open>filteredProfiles\<close> are variables that hold
  references to arrays: \<open>heap\<close> maps an address to the array stored there, \<open>next_addr\<close> is
  the next unused address. \<^verbatim>\<open>sort\<close> changes an array in place, through whatever variable
  it is reached. The document is the map \<open>dom\<close> from an element id to the element's content
  (\<open>None\<close>: no such element); \<open>console\<close> is what \<^verbatim>\<open>console.error\<close> printed; \<open>timers\<close> are
  the intervals started by \<^verbatim>\<open>animateValue\<close> and not cleared; \<open>now_calls\<close> counts the calls
  of \<^verbatim>\<open>Date.now()\<close>; the two listener flags say whether \<^verbatim>\<open>handleSearch\<close> and
  \<^verbatim>\<open>handleSort\<close> are registered on their controls.
\<close>

datatype js_error = FetchRejected | ThrownError string | JsonSyntaxError

datatype 'a fetch_outcome = NetworkFailure | HttpResponse bool "'a option"

record timer =
  t_id :: string
  t_increment :: rat
  t_current :: rat
  t_end :: rat

record app_state =
  heap :: "nat \<Rightarrow> profile list"
  next_addr :: nat
  profilesData :: nat
  filteredProfiles :: nat
  dom :: "string \<Rightarrow> string option"
  console :: "(string \<times> js_error) list"
  timers :: "timer list"
  now_calls :: nat
  search_listener :: bool
  sort_listener :: bool

text \<open>
  The script starts with \<^verbatim>\<open>let profilesData = []; let filteredProfiles = [];\<close>: two
  different empty arrays.
\<close>

definition initial_state :: "(string \<Rightarrow> string option) \<Rightarrow> app_state" where
  "initial_state d =
     \<lparr>heap = (\<lambda>a. []), next_addr = 2, profilesData = 0, filteredProfiles = 1,
      dom = d, console = [], timers = [], now_calls = 0,
      search_listener = False, sort_listener = False\<rparr>"

text \<open>A new array (an array literal, a spread copy, the result of \<^verbatim>\<open>filter\<close>).\<close>

definition new_array :: "profile list \<Rightarrow> app_state \<Rightarrow> nat \<times> app_state" where
  "new_array xs st =
     (next_addr st, st\<lparr>heap := (heap st)(next_addr st := xs), next_addr := Suc (next_addr st)\<rparr>)"

definition set_content :: "string \<Rightarrow> string \<Rightarrow> app_state \<Rightarrow> app_state" where
  "set_content elem_id v st =
     (case dom st elem_id of
        None \<Rightarrow> st
      | Some old \<Rightarrow> st\<lparr>dom := (dom st)(elem_id \<mapsto> v)\<rparr>)"

definition getRelAttribute :: "string \<Rightarrow> string \<Rightarrow> string" where
  "getRelAttribute username' instance' =
     (if instance' = [] \<or> instance' = ''mstdn.ro'' then ''noopener nofollow'' else ''noopener'')"

subsection \<open>Rendering\<close>

definition createProfileCard :: "browser \<Rightarrow> profile \<Rightarrow> string" where
  \<open>createProfileCard br p =
     (let displayName = str_or (display_name p) (str_or (username p) (''F'' @ a_breve @ ''r'' @ a_breve @ '' nume''));
          username' = str_or (username p) [];
          description = str_or (note_field p) (''F'' @ a_breve @ ''r'' @ a_breve @ '' descriere'');
          avatar' = str_or (avatar p) [];
          avatarInitial = toUpperCase br (charAt0 br displayName);
          posts = num_or_0 (statuses_count p);
          followers = num_or_0 (followers_count p);
          following = num_or_0 (following_count p);
          instance' = str_or (instance_field p) ''social.5th.ro'';
          relAttr = getRelAttribute username' instance'
      in
      ''\<newline>''
      @ ''    <div class="profile-card">\<newline>''
      @ ''      <div class="profile-header">\<newline>''
      @ ''        <div class="profile-avatar">\<newline>''
      @ ''          ''
      @ (if avatar' \<noteq> [] then
           ''<img src="'' @ avatar' @ ''" alt="'' @ displayName @ ''" width="64" height="64" loading="lazy" decoding="async" onerror="this.style.display='none'; this.nextElementSibling.style.display='flex';" style="width:100%;height:100%;object-fit:cover;border-radius:var(--radius);">\<newline>''
           @ ''          <span style="display:none;">'' @ avatarInitial @ ''</span>''
         else ''<span>'' @ avatarInitial @ ''</span>'')
      @ ''\<newline>''
      @ ''        </div>\<newline>''
      @ ''        <div class="profile-info">\<newline>''
      @ ''          <h3 class="profile-name">'' @ escapeHtml displayName @ ''</h3>\<newline>''
      @ ''          <p class="profile-username">@'' @ escapeHtml (str_or (acct p) (username' @ ''@'' @ instance')) @ ''</p>\<newline>''
      @ ''        </div>\<newline>''
      @ ''      </div>\<newline>''
      @ ''      <p class="profile-description">'' @ escapeHtml (stripHtml br description) @ ''</p>\<newline>''
      @ ''      <div class="profile-stats">\<newline>''
      @ ''        <div class="profile-stat">\<newline>''
      @ ''          <svg viewBox="0 0 24 24" fill="none" stroke="currentColor" stroke-width="2">\<newline>''
      @ ''            <path d="M4 19.5A2.5 2.5 0 0 1 6.5 17H20"></path>\<newline>''
      @ ''            <path d="M6.5 2H20v20H6.5A2.5 2.5 0 0 1 4 19.5v-15A2.5 2.5 0 0 1 6.5 2z"></path>\<newline>''
      @ ''          </svg>\<newline>''
      @ ''          <strong>'' @ formatNumber posts @ ''</strong> post'' @ a_breve @ ''ri\<newline>''
      @ ''        </div>\<newline>''
      @ ''        <div class="profile-stat">\<newline>''
      @ ''          <svg viewBox="0 0 24 24" fill="none" stroke="currentColor" stroke-width="2">\<newline>''
      @ ''            <path d="M17 21v-2a4 4 0 0 0-4-4H5a4 4 0 0 0-4 4v2"></path>\<newline>''
      @ ''            <circle cx="9" cy="7" r="4"></circle>\<newline>''
      @ ''            <path d="M23 21v-2a4 4 0 0 0-3-3.87"></path>\<newline>''
      @ ''            <path d="M16 3.13a4 4 0 0 1 0 7.75"></path>\<newline>''
      @ ''          </svg>\<newline>''
      @ ''          <strong>'' @ formatNumber followers @ ''</strong> urm'' @ a_breve @ ''ritori\<newline>''
      @ ''        </div>\<newline>''
      @ ''      </div>\<newline>''
      @ ''    </div>\<newline>''
      @ ''  '')\<close>

definition empty_state_html :: string where
  \<open>empty_state_html =
      ''\<newline>''
      @ ''      <div class="empty-state">\<newline>''
      @ ''        <svg viewBox="0 0 24 24" fill="none" stroke="currentColor" stroke-width="2">\<newline>''
      @ ''          <circle cx="11" cy="11" r="8"></circle>\<newline>''
      @ ''          <path d="m21 21-4.35-4.35"></path>\<newline>''
      @ ''        </svg>\<newline>''
      @ ''        <p>Nu s-au g'' @ a_breve @ ''sit profiluri care s'' @ a_breve @ '' corespund'' @ a_breve @ '' criteriilor de c'' @ a_breve @ ''utare.</p>\<newline>''
      @ ''      </div>\<newline>''
      @ ''    ''\<close>

text \<open>
  \<^verbatim>\<open>renderProfiles\<close>. The click handlers it adds to the cards only navigate away from the
  page and are left out.
\<close>

definition renderProfiles :: "browser \<Rightarrow> app_state \<Rightarrow> app_state" where
  "renderProfiles br st =
     (case dom st ''profilesGrid'' of
        None \<Rightarrow> st
      | Some old \<Rightarrow>
          if length (heap st (filteredProfiles st)) = 0
          then set_content ''profilesGrid'' empty_state_html st
          else set_content ''profilesGrid''
                 (concat (map (createProfileCard br) (heap st (filteredProfiles st)))) st)"

definition error_html :: "string \<Rightarrow> string" where
  \<open>error_html message =
      ''\<newline>''
      @ ''      <div class="empty-state">\<newline>''
      @ ''        <p style="color: var(--accent-2);">'' @ escapeHtml message @ ''</p>\<newline>''
      @ ''      </div>\<newline>''
      @ ''    ''\<close>

definition showError :: "string \<Rightarrow> app_state \<Rightarrow> app_state" where
  "showError message st = set_content ''profilesGrid'' (error_html message) st"

subsection \<open>Loading\<close>

definition load_error_message :: string where
  "load_error_message =
     ''Nu s-au putut '' @ i_circ @ ''nc'' @ a_breve @ ''rca profilurile. Te rug'' @ a_breve
     @ ''m s'' @ a_breve @ '' re'' @ i_circ @ ''mprosp'' @ a_breve @ ''tezi pagina.''"

text \<open>The \<^verbatim>\<open>catch\<close> block of \<^verbatim>\<open>loadProfiles\<close>.\<close>

definition loadProfiles_catch :: "js_error \<Rightarrow> app_state \<Rightarrow> app_state" where
  "loadProfiles_catch e st =
     showError load_error_message (st\<lparr>console := console st @ [(''Error loading profiles:'', e)]\<rparr>)"

text \<open>
  \<^verbatim>\<open>loadProfiles\<close>, on the outcome of the fetch: the request fails, or a response arrives
  with its \<^verbatim>\<open>ok\<close> flag and a body that parses as JSON or does not.
\<close>

definition loadProfiles :: "profile list fetch_outcome \<Rightarrow> app_state \<Rightarrow> app_state" where
  "loadProfiles outcome st =
     (case outcome of
        NetworkFailure \<Rightarrow> loadProfiles_catch FetchRejected st
      | HttpResponse ok body \<Rightarrow>
          if \<not> ok then loadProfiles_catch (ThrownError ''Failed to load profiles'') st
          else (case body of
                  None \<Rightarrow> loadProfiles_catch JsonSyntaxError st
                | Some ps \<Rightarrow>
                    let (a, st1) = new_array ps st;
                        st2 = st1\<lparr>profilesData := a\<rparr>;
                        (b, st3) = new_array (heap st2 (profilesData st2)) st2
                    in st3\<lparr>filteredProfiles := b\<rparr>))"

subsection \<open>Search and sort\<close>

definition updateResultsCount :: "app_state \<Rightarrow> app_state" where
  "updateResultsCount st =
     set_content ''resultsCount'' (toString (int (length (heap st (filteredProfiles st))))) st"

text \<open>The callback of \<^verbatim>\<open>profilesData.filter\<close> in \<^verbatim>\<open>handleSearch\<close>.\<close>

definition search_match :: "browser \<Rightarrow> string \<Rightarrow> profile \<Rightarrow> bool" where
  "search_match br query p =
     (let name = toLowerCase br (str_or (display_name p) (str_or (username p) []));
          username' = toLowerCase br (str_or (username p) []);
          description = toLowerCase br (str_or (note_field p) []);
          searchTerm = toLowerCase br query
      in includes_str name searchTerm \<or> includes_str username' searchTerm
         \<or> includes_str description searchTerm)"

definition handleSearch :: "browser \<Rightarrow> string \<Rightarrow> app_state \<Rightarrow> app_state" where
  "handleSearch br v st =
     (let query = trim br (toLowerCase br v);
          (a, st1) =
            (if query = [] then new_array (heap st (profilesData st)) st
             else new_array (filter (search_match br query) (heap st (profilesData st))) st);
          st2 = st1\<lparr>filteredProfiles := a\<rparr>
      in renderProfiles br (updateResultsCount st2))"

text \<open>
  \<^verbatim>\<open>new Date(x || 0)\<close>: the epoch when the field is missing or empty, the parsed date
  otherwise. The difference of two dates is NaN when one of them is invalid, and
  \<^verbatim>\<open>sort\<close> reads a NaN from its comparison function as 0.
\<close>

definition date_or_epoch :: "browser \<Rightarrow> string option \<Rightarrow> int option" where
  "date_or_epoch br v =
     (case v of None \<Rightarrow> Some 0 | Some s \<Rightarrow> if s = [] then Some 0 else dateParse br s)"

definition compare_by :: "browser \<Rightarrow> string \<Rightarrow> profile \<Rightarrow> profile \<Rightarrow> int" where
  "compare_by br sortBy a b =
     (if sortBy = ''name'' then
        localeCompare br (str_or (display_name a) (str_or (username a) []))
          (str_or (display_name b) (str_or (username b) []))
      else if sortBy = ''posts'' then
        num_or_0 (statuses_count b) - num_or_0 (statuses_count a)
      else if sortBy = ''followers'' then
        num_or_0 (followers_count b) - num_or_0 (followers_count a)
      else if sortBy = ''recent'' then
        (case (date_or_epoch br (created_at b), date_or_epoch br (created_at a)) of
           (Some tb, Some ta) \<Rightarrow> tb - ta
         | _ \<Rightarrow> 0)
      else 0)"

definition handleSort :: "browser \<Rightarrow> string \<Rightarrow> app_state \<Rightarrow> app_state" where
  "handleSort br sortBy st =
     renderProfiles br
       (st\<lparr>heap := (heap st)(filteredProfiles st :=
              array_sort (compare_by br sortBy) (heap st (filteredProfiles st)))\<rparr>)"

subsection \<open>Statistics and the counter animation\<close>

text \<open>
  \<^verbatim>\<open>animateValue\<close> starts an interval when the element exists. The numbers of the
  animation are rationals here, where the script has IEEE doubles.
\<close>

definition new_timer :: "string \<Rightarrow> rat \<Rightarrow> rat \<Rightarrow> rat \<Rightarrow> timer" where
  "new_timer elem_id start end' duration =
     (let range = end' - start;
          increment = range / (duration / 16);
          current = start
      in \<lparr>t_id = elem_id, t_increment = increment, t_current = current, t_end = end'\<rparr>)"

definition animateValue :: "string \<Rightarrow> rat \<Rightarrow> rat \<Rightarrow> rat \<Rightarrow> app_state \<Rightarrow> app_state" where
  "animateValue elem_id start end' duration st =
     (case dom st elem_id of
        None \<Rightarrow> st
      | Some old \<Rightarrow> st\<lparr>timers := timers st @ [new_timer elem_id start end' duration]\<rparr>)"

text \<open>
  One run of the interval's callback: the timer after it, and whether the callback called
  \<^verbatim>\<open>clearInterval\<close>. \<open>displayed\<close> is the number it then writes into the element.
\<close>

definition tick :: "timer \<Rightarrow> timer \<times> bool" where
  "tick t =
     (let current = t_current t + t_increment t in
      if (t_increment t > 0 \<and> current \<ge> t_end t) \<or> (t_increment t < 0 \<and> current \<le> t_end t)
      then (t\<lparr>t_current := t_end t\<rparr>, True)
      else (t\<lparr>t_current := current\<rparr>, False))"

definition displayed :: "timer \<Rightarrow> int" where
  "displayed t = \<lfloor>t_current t\<rfloor>"

text \<open>
  The life of one interval: the numbers it displays, tick after tick, until it is cleared.
  \<open>None\<close>: it is never cleared.
\<close>

partial_function (option) animate_run :: "timer \<Rightarrow> int list option" where
  "animate_run t =
     (case tick t of
        (t', cleared) \<Rightarrow>
          if cleared then Some [displayed t']
          else Option.bind (animate_run t') (\<lambda>vs. Some (displayed t' # vs)))"

text \<open>The same with a bound on the number of ticks: \<open>None\<close> when the bound is reached.\<close>

fun animate_ticks :: "nat \<Rightarrow> timer \<Rightarrow> int list option" where
  "animate_ticks 0 t = None"
| "animate_ticks (Suc n) t =
     (case tick t of
        (t', cleared) \<Rightarrow>
          if cleared then Some [displayed t']
          else Option.bind (animate_ticks n t') (\<lambda>vs. Some (displayed t' # vs)))"

text \<open>
  The callback of the \<^verbatim>\<open>filter\<close> that counts the active profiles. \<open>lastStatus\<close> is
  \<open>None\<close> for \<^verbatim>\<open>null\<close>, \<open>Some None\<close> for an invalid date. \<^verbatim>\<open>Date.now()\<close> is read once
  for every profile that has a date.
\<close>

definition lastStatus :: "browser \<Rightarrow> profile \<Rightarrow> int option option" where
  "lastStatus br p =
     (case last_status_at p of
        None \<Rightarrow> None
      | Some s \<Rightarrow> if s = [] then None else Some (dateParse br s))"

definition daysSince :: "int \<Rightarrow> int \<Rightarrow> rat" where
  "daysSince now t = of_int (now - t) / (1000 * 60 * 60 * 24)"

fun active_filter :: "browser \<Rightarrow> nat \<Rightarrow> profile list \<Rightarrow> profile list \<times> nat" where
  "active_filter br k [] = ([], k)"
| "active_filter br k (p # ps) =
     (case lastStatus br p of
        None \<Rightarrow> active_filter br k ps
      | Some d \<Rightarrow>
          (let keep = (case d of None \<Rightarrow> False | Some t \<Rightarrow> daysSince (dateNow br k) t \<le> 30);
               (rest, k') = active_filter br (Suc k) ps
           in (if keep then p # rest else rest, k')))"

definition updateStats :: "browser \<Rightarrow> app_state \<Rightarrow> app_state" where
  "updateStats br st =
     (let ps = heap st (profilesData st);
          totalProfiles = int (length ps);
          totalPosts = foldl (\<lambda>sum p. sum + num_or_0 (statuses_count p)) 0 ps;
          totalFollowers = foldl (\<lambda>sum p. sum + num_or_0 (followers_count p)) 0 ps;
          (active, k) = active_filter br (now_calls st) ps;
          activeProfiles = int (length active);
          st1 = st\<lparr>now_calls := k\<rparr>;
          st2 = animateValue ''totalProfiles'' 0 (of_int totalProfiles) 1000 st1;
          st3 = animateValue ''totalPosts'' 0 (of_int totalPosts) 1000 st2;
          st4 = animateValue ''totalFollowers'' 0 (of_int totalFollowers) 1000 st3
      in animateValue ''activeProfiles'' 0 (of_int activeProfiles) 1000 st4)"

subsection \<open>Page life\<close>

definition setupSearch :: "app_state \<Rightarrow> app_state" where
  "setupSearch st =
     (let st1 = (case dom st ''searchInput'' of
                   None \<Rightarrow> st
                 | Some old \<Rightarrow> st\<lparr>search_listener := True\<rparr>)
      in (case dom st1 ''sortSelect'' of
            None \<Rightarrow> st1
          | Some old \<Rightarrow> st1\<lparr>sort_listener := True\<rparr>))"

text \<open>
  The page starts with the \<^verbatim>\<open>DOMContentLoaded\<close> handler, on the outcome of the fetch
  and the document \<open>d\<close>, and then reacts to events: input in the search box, a change of
  the sort selection, a tick of the \<open>i\<close>-th running interval. An event whose listener is
  not registered changes nothing.
\<close>

definition init :: "browser \<Rightarrow> profile list fetch_outcome \<Rightarrow> (string \<Rightarrow> string option) \<Rightarrow> app_state" where
  "init br outcome d =
     renderProfiles br (updateStats br (setupSearch (loadProfiles outcome (initial_state d))))"

datatype event = SearchInput string | SortChange string | TimerTick nat

definition fire :: "nat \<Rightarrow> app_state \<Rightarrow> app_state" where
  "fire i st =
     (if i < length (timers st) then
        (let (t', cleared) = tick (timers st ! i);
             st1 = set_content (t_id t') (formatNumber (displayed t')) st
         in st1\<lparr>timers := (if cleared then take i (timers st) @ drop (Suc i) (timers st)
                             else (timers st)[i := t'])\<rparr>)
      else st)"

fun dispatch :: "browser \<Rightarrow> event \<Rightarrow> app_state \<Rightarrow> app_state" where
  "dispatch br (SearchInput v) st = (if search_listener st then handleSearch br v st else st)"
| "dispatch br (SortChange sortBy) st = (if sort_listener st then handleSort br sortBy st else st)"
| "dispatch br (TimerTick i) st = fire i st"

fun run :: "browser \<Rightarrow> event list \<Rightarrow> app_state \<Rightarrow> app_state" where
  "run br [] st = st"
| "run br (e # es) st = run br es (dispatch br e st)"

section \<open>The statistics page\<close>

text \<open>
  The statistics script has its own \<^verbatim>\<open>profilesData\<close>, which it only reads and copies,
  its own \<^verbatim>\<open>loadProfiles\<close>, and the same \<^verbatim>\<open>animateValue\<close> and \<^verbatim>\<open>formatNumber\<close>.
  The repository holds the script twice; the second copy differs in
  \<^verbatim>\<open>renderServerStats\<close> only, which there has no placeholder and no title block.
\<close>

record server_counts =
  user_count :: "int option"
  status_count :: "int option"
  domain_count :: "int option"

record server_stats =
  version :: "string option"
  stats :: "server_counts option"
  title :: "string option"
  short_description :: "string option"

record stats_state =
  s_profilesData :: "profile list"
  s_dom :: "string \<Rightarrow> string option"
  s_console :: "(string \<times> js_error) list"
  s_timers :: "timer list"
  s_now_calls :: nat

definition stats_initial_state :: "(string \<Rightarrow> string option) \<Rightarrow> stats_state" where
  "stats_initial_state d =
     \<lparr>s_profilesData = [], s_dom = d, s_console = [], s_timers = [], s_now_calls = 0\<rparr>"

definition s_set_content :: "string \<Rightarrow> string \<Rightarrow> stats_state \<Rightarrow> stats_state" where
  "s_set_content elem_id v st =
     (case s_dom st elem_id of
        None \<Rightarrow> st
      | Some old \<Rightarrow> st\<lparr>s_dom := (s_dom st)(elem_id \<mapsto> v)\<rparr>)"

definition stats_loadProfiles :: "profile list fetch_outcome \<Rightarrow> stats_state \<Rightarrow> stats_state" where
  "stats_loadProfiles outcome st =
     (case outcome of
        NetworkFailure \<Rightarrow> st\<lparr>s_console := s_console st @ [(''Error loading profiles:'', FetchRejected)]\<rparr>
      | HttpResponse ok body \<Rightarrow>
          if \<not> ok then
            st\<lparr>s_console := s_console st @
                 [(''Error loading profiles:'', ThrownError ''Failed to load profiles'')]\<rparr>
          else (case body of
                  None \<Rightarrow> st\<lparr>s_console := s_console st @ [(''Error loading profiles:'', JsonSyntaxError)]\<rparr>
                | Some ps \<Rightarrow> st\<lparr>s_profilesData := ps\<rparr>))"

definition s_animateValue :: "string \<Rightarrow> rat \<Rightarrow> rat \<Rightarrow> rat \<Rightarrow> stats_state \<Rightarrow> stats_state" where
  "s_animateValue elem_id start end' duration st =
     (case s_dom st elem_id of
        None \<Rightarrow> st
      | Some old \<Rightarrow> st\<lparr>s_timers := s_timers st @ [new_timer elem_id start end' duration]\<rparr>)"

definition updateOverviewStats :: "browser \<Rightarrow> stats_state \<Rightarrow> stats_state" where
  "updateOverviewStats br st =
     (let ps = s_profilesData st;
          totalProfiles = int (length ps);
          totalPosts = foldl (\<lambda>sum p. sum + num_or_0 (statuses_count p)) 0 ps;
          totalFollowers = foldl (\<lambda>sum p. sum + num_or_0 (followers_count p)) 0 ps;
          (active, k) = active_filter br (s_now_calls st) ps;
          activeProfiles = int (length active);
          st1 = st\<lparr>s_now_calls := k\<rparr>;
          st2 = s_animateValue ''totalProfiles'' 0 (of_int totalProfiles) 1000 st1;
          st3 = s_animateValue ''totalPosts'' 0 (of_int totalPosts) 1000 st2;
          st4 = s_animateValue ''totalFollowers'' 0 (of_int totalFollowers) 1000 st3
      in s_animateValue ''activeProfiles'' 0 (of_int activeProfiles) 1000 st4)"

text \<open>The two lists of \<^verbatim>\<open>renderTopProfiles\<close>: a copy of the array, sorted, cut after ten.\<close>

definition topPosts :: "profile list \<Rightarrow> profile list" where
  "topPosts ps =
     take 10 (array_sort (\<lambda>a b. num_or_0 (statuses_count b) - num_or_0 (statuses_count a)) ps)"

definition topFollowers :: "profile list \<Rightarrow> profile list" where
  "topFollowers ps =
     take 10 (array_sort (\<lambda>a b. num_or_0 (followers_count b) - num_or_0 (followers_count a)) ps)"

text \<open>
  One entry of a top list. A missing \<^verbatim>\<open>username\<close> is \<^verbatim>\<open>undefined\<close>, which
  \<^verbatim>\<open>encodeURIComponent\<close> turns into the word and \<^verbatim>\<open>textContent\<close> into the empty text.
\<close>

definition top_item :: "(profile \<Rightarrow> int option) \<Rightarrow> profile \<Rightarrow> nat \<Rightarrow> string" where
  \<open>top_item count_of p index =
      ''\<newline>''
      @ ''      <div class="top-profile-item" onclick="window.location.href='/profiles/''
      @ (case username p of None \<Rightarrow> ''undefined'' | Some u \<Rightarrow> encodeURIComponent u) @ ''/'">\<newline>''
      @ ''        <div class="top-profile-info">\<newline>''
      @ ''          <div class="top-profile-rank">#'' @ toString (int index + 1) @ ''</div>\<newline>''
      @ ''          <div>\<newline>''
      @ ''            <div class="top-profile-name">''
      @ escapeHtml (str_or (display_name p) (case username p of None \<Rightarrow> [] | Some u \<Rightarrow> u)) @ ''</div>\<newline>''
      @ ''            <div style="font-size: 14px; color: var(--text-muted);">@''
      @ escapeHtml (case username p of None \<Rightarrow> [] | Some u \<Rightarrow> u) @ ''</div>\<newline>''
      @ ''          </div>\<newline>''
      @ ''        </div>\<newline>''
      @ ''        <div class="top-profile-stat">'' @ formatNumber (num_or_0 (count_of p)) @ ''</div>\<newline>''
      @ ''      </div>\<newline>''
      @ ''    ''\<close>

definition renderTopProfiles :: "stats_state \<Rightarrow> stats_state" where
  "renderTopProfiles st =
     (let tp = topPosts (s_profilesData st);
          st1 = s_set_content ''topPosts''
                  (concat (map (\<lambda>(p, index). top_item statuses_count p index)
                             (zip tp [0 ..< length tp]))) st;
          tf = topFollowers (s_profilesData st)
      in s_set_content ''topFollowers''
           (concat (map (\<lambda>(p, index). top_item followers_count p index)
                      (zip tf [0 ..< length tf]))) st1)"

definition stats_unavailable_html :: string where
  \<open>stats_unavailable_html =
     ''<p style="color: var(--text-muted);">Statisticile serverului nu sunt disponibile momentan.</p>''\<close>

text \<open>
  \<^verbatim>\<open>renderServerStats\<close>. An object with none of the four fields stands for the empty
  object, which gets the placeholder.
\<close>

definition renderServerStats :: "server_stats \<Rightarrow> stats_state \<Rightarrow> stats_state" where
  \<open>renderServerStats sv st =
     (case s_dom st ''serverStats'' of
        None \<Rightarrow> st
      | Some old \<Rightarrow>
         (let version' = str_or (version sv) ''N/A'';
              userCount = (case stats sv of None \<Rightarrow> 0 | Some c \<Rightarrow> num_or_0 (user_count c));
              statusCount = (case stats sv of None \<Rightarrow> 0 | Some c \<Rightarrow> num_or_0 (status_count c));
              domainCount = (case stats sv of None \<Rightarrow> 0 | Some c \<Rightarrow> num_or_0 (domain_count c))
          in
          if version sv = None \<and> stats sv = None \<and> title sv = None \<and> short_description sv = None
          then s_set_content ''serverStats'' stats_unavailable_html st
          else s_set_content ''serverStats''
           (''\<newline>''
      @ ''    <div style="display: grid; grid-template-columns: repeat(auto-fit, minmax(200px, 1fr)); gap: 24px;">\<newline>''
      @ ''      <div>\<newline>''
      @ ''        <div style="font-size: 14px; color: var(--text-muted); margin-bottom: 8px;">Versiune Mastodon</div>\<newline>''
      @ ''        <div style="font-size: 24px; font-weight: 700; color: var(--text);">'' @ escapeHtml version' @ ''</div>\<newline>''
      @ ''      </div>\<newline>''
      @ ''      <div>\<newline>''
      @ ''        <div style="font-size: 14px; color: var(--text-muted); margin-bottom: 8px;">Utilizatori Totali</div>\<newline>''
      @ ''        <div style="font-size: 24px; font-weight: 700; color: var(--text);">'' @ formatNumber userCount @ ''</div>\<newline>''
      @ ''      </div>\<newline>''
      @ ''      <div>\<newline>''
      @ ''        <div style="font-size: 14px; color: var(--text-muted); margin-bottom: 8px;">Statusuri Totale</div>\<newline>''
      @ ''        <div style="font-size: 24px; font-weight: 700; color: var(--text);">'' @ formatNumber statusCount @ ''</div>\<newline>''
      @ ''      </div>\<newline>''
      @ ''      <div>\<newline>''
      @ ''        <div style="font-size: 14px; color: var(--text-muted); margin-bottom: 8px;">Domenii Conectate</div>\<newline>''
      @ ''        <div style="font-size: 24px; font-weight: 700; color: var(--text);">'' @ formatNumber domainCount @ ''</div>\<newline>''
      @ ''      </div>\<newline>''
      @ ''    </div>\<newline>''
      @ ''    ''
      @ (if truthy (title sv) then
           ''\<newline>''
      @ ''    <div style="margin-top: 32px; padding-top: 24px; border-top: 1px solid var(--border);">\<newline>''
      @ ''      <div style="font-size: 14px; color: var(--text-muted); margin-bottom: 8px;">Titlu Server</div>\<newline>''
      @ ''      <div style="font-size: 18px; font-weight: 600; color: var(--text);">'' @ escapeHtml (str_or (title sv) []) @ ''</div>\<newline>''
      @ ''      ''
      @ (if truthy (short_description sv) then
           ''<div style="font-size: 14px; color: var(--text-muted); margin-top: 8px;">''
           @ escapeHtml (str_or (short_description sv) []) @ ''</div>''
         else [])
      @ ''\<newline>''
      @ ''    </div>\<newline>''
      @ ''    ''
         else [])
      @ ''\<newline>''
      @ ''  '') st))\<close>

definition loadServerStats_catch :: "js_error \<Rightarrow> stats_state \<Rightarrow> stats_state" where
  "loadServerStats_catch e st =
     s_set_content ''serverStats'' stats_unavailable_html
       (st\<lparr>s_console := s_console st @ [(''Error loading server stats:'', e)]\<rparr>)"

definition loadServerStats :: "server_stats fetch_outcome \<Rightarrow> stats_state \<Rightarrow> stats_state" where
  "loadServerStats outcome st =
     (case outcome of
        NetworkFailure \<Rightarrow> loadServerStats_catch FetchRejected st
      | HttpResponse ok body \<Rightarrow>
          if \<not> ok then loadServerStats_catch (ThrownError ''Failed to load server stats'') st
          else (case body of
                  None \<Rightarrow> loadServerStats_catch JsonSyntaxError st
                | Some sv \<Rightarrow> renderServerStats sv st))"

text \<open>
  The \<^verbatim>\<open>DOMContentLoaded\<close> handler of the statistics page. \<^verbatim>\<open>loadServerStats\<close> is
  started last and not awaited; nothing runs after it.
\<close>

definition stats_init ::
  "browser \<Rightarrow> profile list fetch_outcome \<Rightarrow> server_stats fetch_outcome \<Rightarrow>
   (string \<Rightarrow> string option) \<Rightarrow> stats_state" where
  "stats_init br profiles_outcome stats_outcome d =
     loadServerStats stats_outcome
       (renderTopProfiles (updateOverviewStats br
          (stats_loadProfiles profiles_outcome (stats_initial_state d))))"

section \<open>Auxiliary notions of the properties\<close>

text \<open>
  The invariant behind the frame properties: the two variables hold allocated, different
  addresses, so that neither array is reached through the other variable.
\<close>

definition arrays_distinct :: "app_state \<Rightarrow> bool" where
  "arrays_distinct st =
     (profilesData st < next_addr st \<and> filteredProfiles st < next_addr st
      \<and> profilesData st \<noteq> filteredProfiles st)"

text \<open>
  The search predicate in the words of the specification: the lower-cased query occurs in
  the lower-cased display name, in the lower-cased username or in the lower-cased
  biography with its HTML removed; a missing field is the empty string. It is compared
  with \<open>search_match\<close>, the predicate of the script.
\<close>

definition spec_search_match :: "browser \<Rightarrow> string \<Rightarrow> profile \<Rightarrow> bool" where
  "spec_search_match br q p =
     (sublist (toLowerCase br q) (toLowerCase br (str_or (display_name p) []))
      \<or> sublist (toLowerCase br q) (toLowerCase br (str_or (username p) []))
      \<or> sublist (toLowerCase br q) (toLowerCase br (stripHtml br (str_or (note_field p) []))))"

text \<open>
  The fallback text of a card in the words of the specification: the initial letter of
  the display name, or of the username if the display name is absent.
\<close>

definition spec_initial :: "browser \<Rightarrow> profile \<Rightarrow> string" where
  "spec_initial br p =
     (case display_name p of
        Some d \<Rightarrow> charAt0 br d
      | None \<Rightarrow> charAt0 br (case username p of None \<Rightarrow> [] | Some u \<Rightarrow> u))"

text \<open>
  An active profile in the words of the specification: it has a time of last status, and
  that time is at most 30 days, in milliseconds, before \<open>now\<close>. \<open>reading_index k ps i\<close> is
  the number of the clock reading taken for the \<open>i\<close>-th profile of \<open>ps\<close> when \<open>k\<close> readings
  were taken before the list: one reading for every earlier profile that has a date.
\<close>

definition spec_active :: "browser \<Rightarrow> int \<Rightarrow> profile \<Rightarrow> bool" where
  "spec_active br now p =
     (case last_status_at p of
        None \<Rightarrow> False
      | Some s \<Rightarrow> s \<noteq> [] \<and>
          (case dateParse br s of
             None \<Rightarrow> False
           | Some t \<Rightarrow> now - t \<le> 30 * 24 * 60 * 60 * 1000))"

definition reading_index :: "nat \<Rightarrow> profile list \<Rightarrow> nat \<Rightarrow> nat" where
  "reading_index k ps i = k + length (filter (\<lambda>q. truthy (last_status_at q)) (take i ps))"

section \<open>Example data\<close>

text \<open>
  A browser for the examples. Strings are compared byte by byte, two dates are known to
  the parser (31 January 2024 and 1 January 2023, midnight UTC), and the clock starts
  at midnight of 1 March 2024, 30 days after the first date, and advances by one
  millisecond with every reading. Its string methods change the letters of ASCII, trim
  the white space of ASCII and take the first byte, and its parser removes tags, from an
  opening angle bracket to the next closing one. On ASCII text with plain tags, which is
  all the examples hold, these are the results of every engine.
\<close>

definition byte_compare :: "string \<Rightarrow> string \<Rightarrow> int" where
  "byte_compare a b = (if a < b then - 1 else if a = b then 0 else 1)"

definition ascii_lower :: "string \<Rightarrow> string" where
  "ascii_lower s =
     map (\<lambda>c. case map_of (zip upper_letters lower_letters) c of None \<Rightarrow> c | Some d \<Rightarrow> d) s"

definition ascii_upper :: "string \<Rightarrow> string" where
  "ascii_upper s =
     map (\<lambda>c. case map_of (zip lower_letters upper_letters) c of None \<Rightarrow> c | Some d \<Rightarrow> d) s"

definition ascii_space :: "char \<Rightarrow> bool" where
  "ascii_space c = (c \<in> {CHR 0x20, CHR 0x09, CHR 0x0A, CHR 0x0B, CHR 0x0C, CHR 0x0D})"

definition ascii_trim :: "string \<Rightarrow> string" where
  "ascii_trim s = rev (dropWhile ascii_space (rev (dropWhile ascii_space s)))"

fun strip_tags :: "bool \<Rightarrow> string \<Rightarrow> string" where
  "strip_tags in_tag [] = []"
| "strip_tags in_tag (c # cs) =
     (if in_tag then (if c = CHR ''>'' then strip_tags False cs else strip_tags True cs)
      else (if c = CHR ''<'' then strip_tags True cs else c # strip_tags False cs))"

definition example_browser :: browser where
  "example_browser =
     \<lparr>localeCompare = byte_compare,
      dateParse = (\<lambda>s. if s = ''2024-01-31T00:00:00.000Z'' then Some 1706659200000
                      else if s = ''2023-01-01T00:00:00.000Z'' then Some 1672531200000
                      else None),
      dateNow = (\<lambda>k. 1709251200000 + int k),
      toLowerCase = ascii_lower,
      toUpperCase = ascii_upper,
      trim = ascii_trim,
      charAt0 = take 1,
      htmlText = strip_tags False\<rparr>"

definition empty_profile :: profile where
  "empty_profile =
     \<lparr>username = None, display_name = None, note_field = None, avatar = None,
      statuses_count = None, followers_count = None, following_count = None,
      last_status_at = None, created_at = None, instance_field = None, acct = None\<rparr>"

definition profile_ana :: profile where
  "profile_ana =
     empty_profile\<lparr>username := Some ''ana'', display_name := Some ''ana'',
       statuses_count := Some 150, followers_count := Some 10,
       last_status_at := Some ''2024-01-31T00:00:00.000Z''\<rparr>"

definition profile_bob :: profile where
  "profile_bob =
     empty_profile\<lparr>username := Some ''bob'', note_field := Some ''<p>hi</p>'',
       statuses_count := Some 5, last_status_at := Some ''2023-01-01T00:00:00.000Z''\<rparr>"

text \<open>Eleven profiles that differ in their post and follower counts only.\<close>

definition counted_profile :: "int \<Rightarrow> profile" where
  "counted_profile n = empty_profile\<lparr>statuses_count := Some n, followers_count := Some (2 * n)\<rparr>"

definition eleven_profiles :: "profile list" where
  "eleven_profiles = map counted_profile [3, 1, 4, 11, 5, 9, 2, 6, 10, 7, 8]"

text \<open>A document with every element the script of the list page looks up.\<close>

definition example_document :: "string \<Rightarrow> string option" where
  "example_document =
     [''profilesGrid'' \<mapsto> [], ''searchInput'' \<mapsto> [], ''sortSelect'' \<mapsto> ''name'',
      ''resultsCount'' \<mapsto> ''0'', ''totalProfiles'' \<mapsto> ''0'', ''totalPosts'' \<mapsto> ''0'',
      ''totalFollowers'' \<mapsto> ''0'', ''activeProfiles'' \<mapsto> ''0'']"

definition example_state :: app_state where
  "example_state =
     init example_browser (HttpResponse True (Some [profile_ana, profile_bob])) example_document"

text \<open>The statistics page right after its script has started, with the counter elements.\<close>

definition example_stats_state :: stats_state where
  "example_stats_state =
     (stats_initial_state
        [''totalProfiles'' \<mapsto> ''0'', ''totalPosts'' \<mapsto> ''0'', ''totalFollowers'' \<mapsto> ''0'',
         ''activeProfiles'' \<mapsto> ''0'', ''topPosts'' \<mapsto> [], ''topFollowers'' \<mapsto> [],
         ''serverStats'' \<mapsto> []])
     \<lparr>s_profilesData := [profile_ana, profile_bob, empty_profile, profile_ana]\<rparr>"

section \<open>Properties of the built-ins\<close>

lemma string_of_nat_small: "n < 10 \<Longrightarrow> string_of_nat n = [''0123456789'' ! n]"
  by (simp add: string_of_nat.simps)

lemma string_of_nat_large:
  "\<not> n < 10 \<Longrightarrow> string_of_nat n = string_of_nat (n div 10) @ [''0123456789'' ! (n mod 10)]"
  by (subst string_of_nat.simps) simp

lemma sublist_skip: "sublist xs ys \<Longrightarrow> sublist xs (zs @ ys)"
  unfolding sublist_def by (metis append_assoc)

text \<open>The facts that evaluate the string functions on the example data.\<close>

lemma example_browser_strings:
  "toLowerCase example_browser = ascii_lower"
  "toUpperCase example_browser = ascii_upper"
  "trim example_browser = ascii_trim"
  "charAt0 example_browser = take 1"
  "htmlText example_browser = strip_tags False"
  by (simp_all add: example_browser_def)

lemmas string_eval =
  example_browser_strings ascii_lower_def ascii_upper_def ascii_trim_def ascii_space_def
  upper_letters_def lower_letters_def str_or_def includes_str_def stripHtml_def
  sublist_code prefix_code

lemmas profile_eval = profile_ana_def profile_bob_def empty_profile_def

subsection \<open>Sorting\<close>

lemma mset_insort_cmp: "mset (insort_cmp cmp x xs) = add_mset x (mset xs)"
  by (induction xs) auto

lemma mset_array_sort: "mset (array_sort cmp xs) = mset xs"
  unfolding array_sort_def by (induction xs) (auto simp: mset_insort_cmp)

lemma set_array_sort: "set (array_sort cmp xs) = set xs"
  using mset_array_sort [of cmp xs] by (metis set_mset_mset)

lemma length_array_sort: "length (array_sort cmp xs) = length xs"
  using mset_array_sort [of cmp xs] by (metis size_mset)

lemma set_insort_cmp: "set (insort_cmp cmp x xs) = insert x (set xs)"
  using mset_insort_cmp [of cmp x xs] by (metis set_mset_add_mset_insert set_mset_mset)

lemma sorted_insort_cmp:
  assumes total: "\<And>a b. cmp a b \<le> 0 \<or> cmp b a \<le> 0"
    and trans: "\<And>a b c. cmp a b \<le> 0 \<Longrightarrow> cmp b c \<le> 0 \<Longrightarrow> cmp a c \<le> 0"
    and sorted: "sorted_wrt (\<lambda>a b. cmp a b \<le> 0) xs"
  shows "sorted_wrt (\<lambda>a b. cmp a b \<le> 0) (insort_cmp cmp x xs)"
  using sorted
proof (induction xs)
  case Nil
  then show ?case by simp
next
  case (Cons y ys)
  show ?case
  proof (cases "cmp x y \<le> 0")
    case True
    with Cons.prems trans show ?thesis by auto
  next
    case False
    with total have "cmp y x \<le> 0" by blast
    with False Cons show ?thesis by (auto simp: set_insort_cmp)
  qed
qed

lemma sorted_array_sort:
  assumes total: "\<And>a b. cmp a b \<le> 0 \<or> cmp b a \<le> 0"
    and trans: "\<And>a b c. cmp a b \<le> 0 \<Longrightarrow> cmp b c \<le> 0 \<Longrightarrow> cmp a c \<le> 0"
  shows "sorted_wrt (\<lambda>a b. cmp a b \<le> 0) (array_sort cmp xs)"
proof (induction xs)
  case Nil
  then show ?case by (simp add: array_sort_def)
next
  case (Cons x xs)
  have "array_sort cmp (x # xs) = insort_cmp cmp x (array_sort cmp xs)"
    by (simp add: array_sort_def)
  with Cons total trans show ?case
    by (simp add: sorted_insort_cmp)
qed

lemma sorted_array_sort_desc:
  "sorted_wrt (\<lambda>a b. f b \<le> f a) (array_sort (\<lambda>a b. f b - f a) xs)" for f :: "'a \<Rightarrow> int"
proof -
  have "sorted_wrt (\<lambda>a b. f b - f a \<le> 0) (array_sort (\<lambda>a b. f b - f a) xs)"
    by (rule sorted_array_sort) auto
  then show ?thesis by simp
qed

lemma sorted_take_drop:
  assumes "sorted_wrt P xs" and "p \<in> set (take n xs)" and "q \<in> set xs" and "q \<notin> set (take n xs)"
  shows "P p q"
proof -
  from assms(3,4) have "q \<in> set (drop n xs)"
    by (metis Un_iff append_take_drop_id set_append)
  moreover from assms(1) have "sorted_wrt P (take n xs @ drop n xs)" by simp
  ultimately show ?thesis
    using assms(2) unfolding sorted_wrt_append by blast
qed

section \<open>What each operation changes\<close>

lemma set_content_frame:
  "heap (set_content i v st) = heap st"
  "next_addr (set_content i v st) = next_addr st"
  "profilesData (set_content i v st) = profilesData st"
  "filteredProfiles (set_content i v st) = filteredProfiles st"
  "timers (set_content i v st) = timers st"
  "console (set_content i v st) = console st"
  "now_calls (set_content i v st) = now_calls st"
  "search_listener (set_content i v st) = search_listener st"
  "sort_listener (set_content i v st) = sort_listener st"
  by (simp_all add: set_content_def split: option.splits)

lemma dom_set_content:
  "dom (set_content i v st) = (if dom st i = None then dom st else (dom st)(i \<mapsto> v))"
  by (simp add: set_content_def split: option.splits)

lemma renderProfiles_frame:
  "heap (renderProfiles br st) = heap st"
  "next_addr (renderProfiles br st) = next_addr st"
  "profilesData (renderProfiles br st) = profilesData st"
  "filteredProfiles (renderProfiles br st) = filteredProfiles st"
  "timers (renderProfiles br st) = timers st"
  "console (renderProfiles br st) = console st"
  "now_calls (renderProfiles br st) = now_calls st"
  "search_listener (renderProfiles br st) = search_listener st"
  "sort_listener (renderProfiles br st) = sort_listener st"
  by (simp_all add: renderProfiles_def set_content_frame split: option.splits)

lemma updateResultsCount_frame:
  "heap (updateResultsCount st) = heap st"
  "next_addr (updateResultsCount st) = next_addr st"
  "profilesData (updateResultsCount st) = profilesData st"
  "filteredProfiles (updateResultsCount st) = filteredProfiles st"
  "timers (updateResultsCount st) = timers st"
  "console (updateResultsCount st) = console st"
  "now_calls (updateResultsCount st) = now_calls st"
  "search_listener (updateResultsCount st) = search_listener st"
  "sort_listener (updateResultsCount st) = sort_listener st"
  by (simp_all add: updateResultsCount_def set_content_frame)

lemma handleSearch_arrays:
  "profilesData (handleSearch br v st) = profilesData st"
  "filteredProfiles (handleSearch br v st) = next_addr st"
  "next_addr (handleSearch br v st) = Suc (next_addr st)"
  "heap (handleSearch br v st) =
     (heap st)(next_addr st :=
        (if trim br (toLowerCase br v) = [] then heap st (profilesData st)
         else filter (search_match br (trim br (toLowerCase br v))) (heap st (profilesData st))))"
  by (simp_all add: handleSearch_def new_array_def Let_def renderProfiles_frame
        updateResultsCount_frame split: prod.splits)

lemma handleSearch_listeners:
  "search_listener (handleSearch br v st) = search_listener st"
  "sort_listener (handleSearch br v st) = sort_listener st"
  by (simp_all add: handleSearch_def new_array_def Let_def renderProfiles_frame
        updateResultsCount_frame split: prod.splits)

lemma handleSort_arrays:
  "profilesData (handleSort br k st) = profilesData st"
  "filteredProfiles (handleSort br k st) = filteredProfiles st"
  "next_addr (handleSort br k st) = next_addr st"
  "heap (handleSort br k st) =
     (heap st)(filteredProfiles st :=
        array_sort (compare_by br k) (heap st (filteredProfiles st)))"
  "search_listener (handleSort br k st) = search_listener st"
  "sort_listener (handleSort br k st) = sort_listener st"
  by (simp_all add: handleSort_def renderProfiles_frame)

lemma fire_arrays:
  "profilesData (fire i st) = profilesData st"
  "filteredProfiles (fire i st) = filteredProfiles st"
  "next_addr (fire i st) = next_addr st"
  "heap (fire i st) = heap st"
  "search_listener (fire i st) = search_listener st"
  "sort_listener (fire i st) = sort_listener st"
  by (simp_all add: fire_def Let_def set_content_frame split: prod.splits)

lemma dispatch_source:
  assumes "arrays_distinct st"
  shows "arrays_distinct (dispatch br e st)"
    and "profilesData (dispatch br e st) = profilesData st"
    and "heap (dispatch br e st) (profilesData st) = heap st (profilesData st)"
  using assms
  by (cases e; simp add: arrays_distinct_def handleSearch_arrays handleSort_arrays fire_arrays)+

lemma dispatch_listeners:
  "search_listener (dispatch br e st) = search_listener st"
  "sort_listener (dispatch br e st) = sort_listener st"
  by (cases e; simp add: handleSearch_listeners handleSort_arrays fire_arrays)+

lemma run_source:
  assumes "arrays_distinct st"
  shows "arrays_distinct (run br es st) \<and> profilesData (run br es st) = profilesData st
    \<and> heap (run br es st) (profilesData st) = heap st (profilesData st)"
  using assms
proof (induction es arbitrary: st)
  case Nil
  then show ?case by simp
next
  case (Cons e es)
  from Cons.prems have d: "arrays_distinct (dispatch br e st)"
    and p: "profilesData (dispatch br e st) = profilesData st"
    and h: "heap (dispatch br e st) (profilesData st) = heap st (profilesData st)"
    by (simp_all add: dispatch_source)
  from Cons.IH [OF d] p h show ?case by simp
qed

lemma animateValue_frame:
  "heap (animateValue i a b c st) = heap st"
  "next_addr (animateValue i a b c st) = next_addr st"
  "profilesData (animateValue i a b c st) = profilesData st"
  "filteredProfiles (animateValue i a b c st) = filteredProfiles st"
  "dom (animateValue i a b c st) = dom st"
  "console (animateValue i a b c st) = console st"
  by (simp_all add: animateValue_def split: option.splits)

lemma updateStats_frame:
  "heap (updateStats br st) = heap st"
  "next_addr (updateStats br st) = next_addr st"
  "profilesData (updateStats br st) = profilesData st"
  "filteredProfiles (updateStats br st) = filteredProfiles st"
  "dom (updateStats br st) = dom st"
  "console (updateStats br st) = console st"
  by (simp_all add: updateStats_def Let_def animateValue_frame split: prod.splits)

lemma setupSearch_frame:
  "heap (setupSearch st) = heap st"
  "next_addr (setupSearch st) = next_addr st"
  "profilesData (setupSearch st) = profilesData st"
  "filteredProfiles (setupSearch st) = filteredProfiles st"
  "dom (setupSearch st) = dom st"
  "console (setupSearch st) = console st"
  by (simp_all add: setupSearch_def Let_def split: option.splits)

lemma loadProfiles_catch_frame:
  "heap (loadProfiles_catch e st) = heap st"
  "next_addr (loadProfiles_catch e st) = next_addr st"
  "profilesData (loadProfiles_catch e st) = profilesData st"
  "filteredProfiles (loadProfiles_catch e st) = filteredProfiles st"
  by (simp_all add: loadProfiles_catch_def showError_def set_content_frame)

lemma loadProfiles_success:
  "profilesData (loadProfiles (HttpResponse True (Some ps)) st) = next_addr st"
  "filteredProfiles (loadProfiles (HttpResponse True (Some ps)) st) = Suc (next_addr st)"
  "next_addr (loadProfiles (HttpResponse True (Some ps)) st) = Suc (Suc (next_addr st))"
  "heap (loadProfiles (HttpResponse True (Some ps)) st) =
     (heap st)(next_addr st := ps, Suc (next_addr st) := ps)"
  by (simp_all add: loadProfiles_def new_array_def Let_def)

lemma loadProfiles_distinct:
  assumes "arrays_distinct st"
  shows "arrays_distinct (loadProfiles outcome st)"
proof (cases outcome)
  case NetworkFailure
  with assms show ?thesis
    by (simp add: loadProfiles_def arrays_distinct_def loadProfiles_catch_frame)
next
  case (HttpResponse ok body)
  with assms show ?thesis
    by (cases body; cases ok)
       (simp_all add: loadProfiles_def arrays_distinct_def loadProfiles_catch_frame
          new_array_def Let_def)
qed

lemma initial_state_distinct: "arrays_distinct (initial_state d)"
  by (simp add: arrays_distinct_def initial_state_def)

lemma init_distinct: "arrays_distinct (init br outcome d)"
  using loadProfiles_distinct [OF initial_state_distinct, of outcome d]
  by (simp add: init_def arrays_distinct_def renderProfiles_frame updateStats_frame
        setupSearch_frame)

lemma init_loaded:
  "heap (init br (HttpResponse True (Some ps)) d)
     (profilesData (init br (HttpResponse True (Some ps)) d)) = ps"
  by (simp add: init_def renderProfiles_frame updateStats_frame setupSearch_frame
        loadProfiles_success)

lemma loadProfiles_success_dom:
  "dom (loadProfiles (HttpResponse True (Some ps)) st) = dom st"
  by (simp add: loadProfiles_def new_array_def Let_def)

lemma example_state_loaded:
  "heap example_state (profilesData example_state) = [profile_ana, profile_bob]"
  unfolding example_state_def by (rule init_loaded)

section \<open>Search\<close>

lemma handleSearch_result:
  "heap (handleSearch br v st) (filteredProfiles (handleSearch br v st)) =
     (if trim br (toLowerCase br v) = [] then heap st (profilesData st)
      else filter (search_match br (trim br (toLowerCase br v))) (heap st (profilesData st)))"
  by (simp add: handleSearch_arrays)

lemma search_match_fields:
  assumes "t \<noteq> []" and "toLowerCase br t = t" and "toLowerCase br [] = []"
  shows "search_match br t p \<longleftrightarrow>
     sublist t (toLowerCase br (str_or (display_name p) []))
     \<or> sublist t (toLowerCase br (str_or (username p) []))
     \<or> sublist t (toLowerCase br (str_or (note_field p) []))"
  using assms
  by (auto simp: search_match_def includes_str_def Let_def str_or_def
        split: option.splits if_splits)

lemma filter_kept: "filter (\<lambda>x. x \<in> set (filter Q xs)) xs = filter Q xs"
  by (rule filter_cong) auto

text \<open>
  Claim C1 as it is stated fails in two ways. The query is trimmed after it is
  lower-cased: for the query \<^verbatim>\<open>"ana "\<close> the script keeps the profile named ana, in whose
  fields the query with its space does not occur. And the biography is searched as it is
  stored, with its markup: for the query \<^verbatim>\<open>"p"\<close> the script keeps the profile whose
  biography is \<^verbatim>\<open><p>hi</p>\<close>, although the letter occurs neither in its names nor in the
  text of the biography.
\<close>

theorem search_claim_counterexample:
  "heap (handleSearch example_browser ''ana '' example_state)
        (filteredProfiles (handleSearch example_browser ''ana '' example_state))
     = [profile_ana]
   \<and> filter (spec_search_match example_browser ''ana '') [profile_ana, profile_bob] = []
   \<and> heap (handleSearch example_browser ''p'' example_state)
        (filteredProfiles (handleSearch example_browser ''p'' example_state))
     = [profile_bob]
   \<and> filter (spec_search_match example_browser ''p'') [profile_ana, profile_bob] = []"
proof -
  have "heap (handleSearch example_browser ''ana '' example_state)
          (filteredProfiles (handleSearch example_browser ''ana '' example_state)) = [profile_ana]"
    unfolding handleSearch_result example_state_loaded
    by (simp add: search_match_def Let_def string_eval profile_eval)
  moreover have
    "filter (spec_search_match example_browser ''ana '') [profile_ana, profile_bob] = []"
    by (simp add: spec_search_match_def string_eval profile_eval)
  moreover have "heap (handleSearch example_browser ''p'' example_state)
          (filteredProfiles (handleSearch example_browser ''p'' example_state)) = [profile_bob]"
    unfolding handleSearch_result example_state_loaded
    by (simp add: search_match_def Let_def string_eval profile_eval)
  moreover have
    "filter (spec_search_match example_browser ''p'') [profile_ana, profile_bob] = []"
    by (simp add: spec_search_match_def string_eval profile_eval)
  ultimately show ?thesis by simp
qed

text \<open>
  Claim C1, amended. Let \<open>t\<close> be the query lower-cased and then trimmed, and let \<open>t\<close> be
  not empty. Then \<^verbatim>\<open>handleSearch\<close> makes \<^verbatim>\<open>filteredProfiles\<close> a selection of the profiles
  of \<^verbatim>\<open>profilesData\<close> in their order. A profile whose biography holds no markup, so that
  removing the HTML leaves it as it is, is kept exactly when \<open>t\<close> occurs in its lower-cased
  display name, username or biography; and every profile with \<open>t\<close> in its lower-cased
  display name or username is kept. Nothing is said of what the markup of a biography
  does to the search. Two facts of \<^verbatim>\<open>toLowerCase\<close> are hypotheses: it leaves the
  lower-cased, trimmed query and the empty string as they are.
\<close>

theorem handleSearch_keeps_matches:
  assumes "trim br (toLowerCase br v) \<noteq> []"
    and "toLowerCase br (trim br (toLowerCase br v)) = trim br (toLowerCase br v)"
    and "toLowerCase br [] = []"
  shows "heap (handleSearch br v st) (filteredProfiles (handleSearch br v st)) =
           filter (\<lambda>p. p \<in> set (heap (handleSearch br v st) (filteredProfiles (handleSearch br v st))))
             (heap st (profilesData st))
    \<and> (\<forall>p \<in> set (heap st (profilesData st)).
          stripHtml br (str_or (note_field p) []) = str_or (note_field p) [] \<longrightarrow>
            (p \<in> set (heap (handleSearch br v st) (filteredProfiles (handleSearch br v st)))
             \<longleftrightarrow> spec_search_match br (trim br (toLowerCase br v)) p))
    \<and> (\<forall>p \<in> set (heap st (profilesData st)).
          sublist (trim br (toLowerCase br v)) (toLowerCase br (str_or (display_name p) []))
          \<or> sublist (trim br (toLowerCase br v)) (toLowerCase br (str_or (username p) []))
          \<longrightarrow> p \<in> set (heap (handleSearch br v st) (filteredProfiles (handleSearch br v st))))"
proof -
  let ?t = "trim br (toLowerCase br v)"
  let ?ps = "heap st (profilesData st)"
  have kept: "heap (handleSearch br v st) (filteredProfiles (handleSearch br v st))
      = filter (search_match br ?t) ?ps"
    using assms(1) by (simp add: handleSearch_result)
  have fields: "search_match br ?t p \<longleftrightarrow>
     sublist ?t (toLowerCase br (str_or (display_name p) []))
     \<or> sublist ?t (toLowerCase br (str_or (username p) []))
     \<or> sublist ?t (toLowerCase br (str_or (note_field p) []))" for p
    using assms by (rule search_match_fields)
  have "filter (search_match br ?t) ?ps
      = filter (\<lambda>p. p \<in> set (filter (search_match br ?t) ?ps)) ?ps"
    by (rule filter_kept [symmetric])
  moreover have "\<forall>p \<in> set ?ps.
      stripHtml br (str_or (note_field p) []) = str_or (note_field p) [] \<longrightarrow>
        (p \<in> set (filter (search_match br ?t) ?ps) \<longleftrightarrow> spec_search_match br ?t p)"
    by (simp add: fields spec_search_match_def assms(2))
  moreover have "\<forall>p \<in> set ?ps.
      sublist ?t (toLowerCase br (str_or (display_name p) []))
      \<or> sublist ?t (toLowerCase br (str_or (username p) []))
      \<longrightarrow> p \<in> set (filter (search_match br ?t) ?ps)"
    by (simp add: fields)
  ultimately show ?thesis
    unfolding kept by blast
qed

text \<open>
  Claim C1, amended, on the example page and the query \<^verbatim>\<open>"Ana "\<close>: the profile named ana
  has no biography and is kept.
\<close>

theorem handleSearch_keeps_matches_witness:
  "trim example_browser (toLowerCase example_browser ''Ana '') \<noteq> []
   \<and> toLowerCase example_browser (trim example_browser (toLowerCase example_browser ''Ana ''))
       = trim example_browser (toLowerCase example_browser ''Ana '')
   \<and> toLowerCase example_browser [] = []
   \<and> profile_ana \<in> set (heap example_state (profilesData example_state))
   \<and> stripHtml example_browser (str_or (note_field profile_ana) []) = str_or (note_field profile_ana) []
   \<and> spec_search_match example_browser
        (trim example_browser (toLowerCase example_browser ''Ana '')) profile_ana
   \<and> profile_ana \<in> set (heap (handleSearch example_browser ''Ana '' example_state)
                            (filteredProfiles (handleSearch example_browser ''Ana '' example_state)))"
proof -
  have q: "trim example_browser (toLowerCase example_browser ''Ana '') = ''ana''"
    by (simp add: string_eval)
  have h1: "trim example_browser (toLowerCase example_browser ''Ana '') \<noteq> []"
    by (simp add: q)
  have h2: "toLowerCase example_browser (trim example_browser (toLowerCase example_browser ''Ana ''))
       = trim example_browser (toLowerCase example_browser ''Ana '')"
    unfolding q by (simp add: string_eval)
  have h3: "toLowerCase example_browser [] = []"
    by (simp add: string_eval)
  have m: "profile_ana \<in> set (heap example_state (profilesData example_state))"
    by (simp add: example_state_loaded)
  have n: "stripHtml example_browser (str_or (note_field profile_ana) [])
      = str_or (note_field profile_ana) []"
    by (simp add: string_eval profile_eval)
  have s: "spec_search_match example_browser
        (trim example_browser (toLowerCase example_browser ''Ana '')) profile_ana"
    unfolding q by (simp add: spec_search_match_def string_eval profile_eval)
  from handleSearch_keeps_matches [OF h1 h2 h3, of example_state] m n s
  have "profile_ana \<in> set (heap (handleSearch example_browser ''Ana '' example_state)
                            (filteredProfiles (handleSearch example_browser ''Ana '' example_state)))"
    by blast
  with h1 h2 h3 m n s show ?thesis by blast
qed

section \<open>The source array\<close>

text \<open>
  Claim C3. After the page has loaded the list \<open>ps\<close> and reacted to any sequence of
  events, a search with a query that is empty once lower-cased and trimmed makes
  \<^verbatim>\<open>filteredProfiles\<close> the list \<open>ps\<close> again: the same profiles in the same order.
\<close>

theorem empty_query_restores:
  assumes "trim br (toLowerCase br v) = []"
  shows "heap (handleSearch br v (run br es (init br (HttpResponse True (Some ps)) d)))
           (filteredProfiles (handleSearch br v (run br es (init br (HttpResponse True (Some ps)) d))))
         = ps"
proof -
  let ?ini = "init br (HttpResponse True (Some ps)) d"
  let ?st = "run br es ?ini"
  have src: "profilesData ?st = profilesData ?ini
      \<and> heap ?st (profilesData ?ini) = heap ?ini (profilesData ?ini)"
    using run_source [OF init_distinct, of br es br "HttpResponse True (Some ps)" d] by simp
  have "heap (handleSearch br v ?st) (filteredProfiles (handleSearch br v ?st))
      = heap ?st (profilesData ?st)"
    using assms by (simp add: handleSearch_arrays)
  also have "heap ?st (profilesData ?st) = heap ?ini (profilesData ?ini)"
    using src by simp
  also have "heap ?ini (profilesData ?ini) = ps"
    by (rule init_loaded)
  finally show ?thesis .
qed

text \<open>Claim C3 on the example page, after a search and a sort, for a query of two spaces.\<close>

theorem empty_query_restores_witness:
  "trim example_browser (toLowerCase example_browser ''  '') = []
   \<and> heap (handleSearch example_browser ''  ''
             (run example_browser [SearchInput ''bob'', SortChange ''followers''] example_state))
        (filteredProfiles (handleSearch example_browser ''  ''
             (run example_browser [SearchInput ''bob'', SortChange ''followers''] example_state)))
      = [profile_ana, profile_bob]"
proof -
  have q: "trim example_browser (toLowerCase example_browser ''  '') = []"
    by (simp add: string_eval)
  have "heap (handleSearch example_browser ''  ''
             (run example_browser [SearchInput ''bob'', SortChange ''followers''] example_state))
        (filteredProfiles (handleSearch example_browser ''  ''
             (run example_browser [SearchInput ''bob'', SortChange ''followers''] example_state)))
      = [profile_ana, profile_bob]"
    unfolding example_state_def using q by (rule empty_query_restores)
  with q show ?thesis by (rule conjI)
qed

text \<open>
  Claim C7. Whatever events the page reacts to after it has loaded (searches, sorts,
  ticks of the counters), the variable \<^verbatim>\<open>profilesData\<close> still holds the same array and
  the array still holds the same profiles in the same order. Profiles are values here; the
  script has no assignment to a field of a profile.
\<close>

theorem source_array_unchanged:
  "profilesData (run br es (init br outcome d)) = profilesData (init br outcome d)
   \<and> heap (run br es (init br outcome d)) (profilesData (init br outcome d))
       = heap (init br outcome d) (profilesData (init br outcome d))"
  using run_source [OF init_distinct, of br es br outcome d] by simp

section \<open>Sort\<close>

text \<open>
  Claim C4. \<^verbatim>\<open>handleSort\<close> with the key \<^verbatim>\<open>followers\<close> leaves in \<^verbatim>\<open>filteredProfiles\<close> a
  permutation of what was there, in which the follower counts, a missing count taken
  as 0, never increase. With the key \<^verbatim>\<open>name\<close> it leaves a permutation in which every
  profile comes before the profiles that \<^verbatim>\<open>localeCompare\<close> does not put in front of it,
  on the display names, the username standing in for a missing display name. The second
  part needs \<^verbatim>\<open>localeCompare\<close> to be a consistent comparison: total and transitive.
\<close>

theorem handleSort_orders:
  assumes total: "\<forall>a b. localeCompare br a b \<le> 0 \<or> localeCompare br b a \<le> 0"
    and trans: "\<forall>a b c. localeCompare br a b \<le> 0 \<and> localeCompare br b c \<le> 0
                  \<longrightarrow> localeCompare br a c \<le> 0"
  shows "mset (heap (handleSort br ''followers'' st) (filteredProfiles (handleSort br ''followers'' st)))
           = mset (heap st (filteredProfiles st))
    \<and> sorted_wrt (\<lambda>x y. y \<le> x)
        (map (\<lambda>p. num_or_0 (followers_count p))
           (heap (handleSort br ''followers'' st) (filteredProfiles (handleSort br ''followers'' st))))
    \<and> mset (heap (handleSort br ''name'' st) (filteredProfiles (handleSort br ''name'' st)))
           = mset (heap st (filteredProfiles st))
    \<and> sorted_wrt (\<lambda>a b. localeCompare br (str_or (display_name a) (str_or (username a) []))
                          (str_or (display_name b) (str_or (username b) [])) \<le> 0)
        (heap (handleSort br ''name'' st) (filteredProfiles (handleSort br ''name'' st)))"
proof -
  let ?xs = "heap st (filteredProfiles st)"
  let ?name = "\<lambda>p. str_or (display_name p) (str_or (username p) [])"
  have f: "compare_by br ''followers'' = (\<lambda>a b. num_or_0 (followers_count b) - num_or_0 (followers_count a))"
    by (intro ext) (simp add: compare_by_def)
  have n: "compare_by br ''name'' = (\<lambda>a b. localeCompare br (?name a) (?name b))"
    by (intro ext) (simp add: compare_by_def)
  have "sorted_wrt (\<lambda>a b. num_or_0 (followers_count b) \<le> num_or_0 (followers_count a))
          (array_sort (compare_by br ''followers'') ?xs)"
    unfolding f by (rule sorted_array_sort_desc)
  moreover have "sorted_wrt (\<lambda>a b. localeCompare br (?name a) (?name b) \<le> 0)
          (array_sort (compare_by br ''name'') ?xs)"
    unfolding n
  proof (rule sorted_array_sort)
    fix a b :: profile
    show "localeCompare br (?name a) (?name b) \<le> 0 \<or> localeCompare br (?name b) (?name a) \<le> 0"
      using total by blast
  next
    fix a b c :: profile
    assume "localeCompare br (?name a) (?name b) \<le> 0" "localeCompare br (?name b) (?name c) \<le> 0"
    then show "localeCompare br (?name a) (?name c) \<le> 0"
      using trans by blast
  qed
  ultimately show ?thesis
    by (simp add: handleSort_arrays mset_array_sort sorted_wrt_map)
qed

text \<open>Claim C4 on the example page, whose browser compares strings byte by byte.\<close>

lemma byte_compare_le: "byte_compare a b \<le> 0 \<longleftrightarrow> a \<le> b"
  by (auto simp: byte_compare_def)

theorem handleSort_orders_witness:
  "(\<forall>a b. localeCompare example_browser a b \<le> 0 \<longleftrightarrow> a \<le> b)
   \<and> mset (heap (handleSort example_browser ''followers'' example_state)
              (filteredProfiles (handleSort example_browser ''followers'' example_state)))
       = mset (heap example_state (filteredProfiles example_state))
   \<and> sorted_wrt (\<lambda>x y. y \<le> x)
        (map (\<lambda>p. num_or_0 (followers_count p))
           (heap (handleSort example_browser ''followers'' example_state)
              (filteredProfiles (handleSort example_browser ''followers'' example_state))))
   \<and> sorted_wrt (\<lambda>a b. localeCompare example_browser
                          (str_or (display_name a) (str_or (username a) []))
                          (str_or (display_name b) (str_or (username b) [])) \<le> 0)
        (heap (handleSort example_browser ''name'' example_state)
           (filteredProfiles (handleSort example_browser ''name'' example_state)))"
proof -
  have le: "\<forall>a b. localeCompare example_browser a b \<le> 0 \<longleftrightarrow> a \<le> b"
    by (simp add: example_browser_def byte_compare_le)
  then have total:
    "\<forall>a b. localeCompare example_browser a b \<le> 0 \<or> localeCompare example_browser b a \<le> 0"
    by auto
  from le have trans:
    "\<forall>a b c. localeCompare example_browser a b \<le> 0 \<and> localeCompare example_browser b c \<le> 0
          \<longrightarrow> localeCompare example_browser a c \<le> 0"
    by auto
  from handleSort_orders [OF total trans, of example_state] le show ?thesis
    by blast
qed

section \<open>The top lists of the statistics page\<close>

lemma top_by_count:
  fixes f :: "profile \<Rightarrow> int" and ps :: "profile list"
  defines "tops \<equiv> take 10 (array_sort (\<lambda>a b. f b - f a) ps)"
  shows "length tops \<le> 10"
    and "set tops \<subseteq> set ps"
    and "sorted_wrt (\<lambda>x y. y \<le> x) (map f tops)"
    and "\<forall>p \<in> set tops. \<forall>q \<in> set ps. q \<notin> set tops \<longrightarrow> f q \<le> f p"
proof -
  let ?xs = "array_sort (\<lambda>a b. f b - f a) ps"
  have s: "sorted_wrt (\<lambda>a b. f b \<le> f a) ?xs"
    by (rule sorted_array_sort_desc)
  show "length tops \<le> 10" by (simp add: tops_def)
  show "set tops \<subseteq> set ps"
    unfolding tops_def using set_take_subset [of 10 ?xs] by (simp add: set_array_sort)
  from s have "sorted_wrt (\<lambda>a b. f b \<le> f a) (take 10 ?xs)"
    by (rule sorted_wrt_take)
  then show "sorted_wrt (\<lambda>x y. y \<le> x) (map f tops)"
    by (simp add: tops_def sorted_wrt_map)
  show "\<forall>p \<in> set tops. \<forall>q \<in> set ps. q \<notin> set tops \<longrightarrow> f q \<le> f p"
    unfolding tops_def
    using sorted_take_drop [OF s, of _ 10] by (simp add: set_array_sort)
qed

text \<open>
  Claim C8. Each of the two top lists has at most ten profiles, all of them profiles of
  the loaded list, in an order in which the count (posts for the one, followers for the
  other, a missing count taken as 0) never increases, and no profile of the loaded list
  that is left out has a larger count than a profile in the list.
\<close>

theorem top_lists_ordered:
  "length (topPosts ps) \<le> 10 \<and> set (topPosts ps) \<subseteq> set ps
   \<and> sorted_wrt (\<lambda>x y. y \<le> x) (map (\<lambda>p. num_or_0 (statuses_count p)) (topPosts ps))
   \<and> (\<forall>p \<in> set (topPosts ps). \<forall>q \<in> set ps. q \<notin> set (topPosts ps) \<longrightarrow>
         num_or_0 (statuses_count q) \<le> num_or_0 (statuses_count p))
   \<and> length (topFollowers ps) \<le> 10 \<and> set (topFollowers ps) \<subseteq> set ps
   \<and> sorted_wrt (\<lambda>x y. y \<le> x) (map (\<lambda>p. num_or_0 (followers_count p)) (topFollowers ps))
   \<and> (\<forall>p \<in> set (topFollowers ps). \<forall>q \<in> set ps. q \<notin> set (topFollowers ps) \<longrightarrow>
         num_or_0 (followers_count q) \<le> num_or_0 (followers_count p))"
  unfolding topPosts_def topFollowers_def
  using top_by_count [of "\<lambda>p. num_or_0 (statuses_count p)" ps]
    top_by_count [of "\<lambda>p. num_or_0 (followers_count p)" ps]
  by simp

text \<open>Claim C8 on eleven profiles with the post counts 1 to 11: the one with 1 is left out.\<close>

lemma counted_profile_simps:
  "num_or_0 (statuses_count (counted_profile n)) = n"
  "num_or_0 (followers_count (counted_profile n)) = 2 * n"
  "counted_profile m = counted_profile n \<longleftrightarrow> m = n"
  by (auto simp: counted_profile_def empty_profile_def num_or_0_def)

lemma topPosts_eleven:
  "topPosts eleven_profiles = map counted_profile [11, 10, 9, 8, 7, 6, 5, 4, 3, 2]"
  by (simp add: topPosts_def array_sort_def eleven_profiles_def counted_profile_simps)

theorem top_lists_ordered_witness:
  "counted_profile 11 \<in> set (topPosts eleven_profiles)
   \<and> counted_profile 1 \<in> set eleven_profiles
   \<and> counted_profile 1 \<notin> set (topPosts eleven_profiles)
   \<and> length (topPosts eleven_profiles) \<le> 10
   \<and> num_or_0 (statuses_count (counted_profile 1)) \<le> num_or_0 (statuses_count (counted_profile 11))"
proof -
  have a: "counted_profile 11 \<in> set (topPosts eleven_profiles)"
    by (simp add: topPosts_eleven)
  have b: "counted_profile 1 \<in> set eleven_profiles"
    by (simp add: eleven_profiles_def)
  have c: "counted_profile 1 \<notin> set (topPosts eleven_profiles)"
    by (simp add: topPosts_eleven counted_profile_simps)
  from top_lists_ordered [of eleven_profiles] a b c show ?thesis
    by blast
qed

section \<open>The avatar fallback of a card\<close>

lemmas card_eval =
  createProfileCard_def Let_def a_breve_def num_or_0_def formatNumber_def
  string_of_nat_small string_of_nat_large getRelAttribute_def

lemma card_profile_ana:
  \<open>sublist ''<span>A</span>'' (createProfileCard example_browser profile_ana)
   \<and> \<not> sublist ''<span>a</span>'' (createProfileCard example_browser profile_ana)\<close>
  by (simp add: card_eval string_eval profile_eval)

lemma card_empty_profile:
  \<open>sublist ''<span>F</span>'' (createProfileCard example_browser empty_profile)
   \<and> \<not> sublist ''<span></span>'' (createProfileCard example_browser empty_profile)\<close>
  by (simp add: card_eval string_eval profile_eval)

text \<open>
  Claim C9 as it is stated fails in two ways. The initial is put in upper case: the
  profile named ana, which has no avatar, gets the fallback text A, and the card has no
  fallback element with the initial letter a of the name. And a profile with neither a
  display name nor a username, which then has no initial letter, gets the fallback text
  F, the initial of the placeholder name.
\<close>

theorem card_initial_counterexample:
  \<open>avatar profile_ana = None \<and> spec_initial example_browser profile_ana = ''a''
   \<and> \<not> sublist (''<span>'' @ spec_initial example_browser profile_ana @ ''</span>'')
         (createProfileCard example_browser profile_ana)
   \<and> sublist ''<span>A</span>'' (createProfileCard example_browser profile_ana)
   \<and> avatar empty_profile = None \<and> spec_initial example_browser empty_profile = []
   \<and> \<not> sublist (''<span>'' @ spec_initial example_browser empty_profile @ ''</span>'')
         (createProfileCard example_browser empty_profile)
   \<and> sublist ''<span>F</span>'' (createProfileCard example_browser empty_profile)\<close>
proof -
  have a: "spec_initial example_browser profile_ana = ''a''"
    by (simp add: spec_initial_def example_browser_strings profile_eval)
  have e: "spec_initial example_browser empty_profile = []"
    by (simp add: spec_initial_def example_browser_strings profile_eval)
  show ?thesis
    unfolding a e using card_profile_ana card_empty_profile by (simp add: profile_eval)
qed

text \<open>
  Claim C9, amended. For every profile whose avatar is missing or empty, the card holds a
  fallback element whose text is the first character, in upper case, of the display name;
  of the username when the display name is missing or empty; of the placeholder name
  when both are. The first character and its upper case are those of the engine's
  \<^verbatim>\<open>charAt(0)\<close> and \<^verbatim>\<open>toUpperCase\<close>.
\<close>

theorem card_shows_upper_initial:
  assumes "\<not> truthy (avatar p)"
  shows "sublist (''<span>''
           @ toUpperCase br (charAt0 br (str_or (display_name p) (str_or (username p)
                (''F'' @ a_breve @ ''r'' @ a_breve @ '' nume''))))
           @ ''</span>'')
         (createProfileCard br p)"
proof -
  from assms have a: "str_or (avatar p) [] = []"
    by (simp add: truthy_def str_or_def split: option.splits)
  show ?thesis
    unfolding createProfileCard_def Let_def a
    apply (simp only: simp_thms if_False)
    apply (rule sublist_skip, rule sublist_skip, rule sublist_skip, rule sublist_skip,
        rule sublist_skip)
    apply (rule sublist_append_rightI)
    done
qed

text \<open>Claim C9, amended, on a profile with a username only: the fallback text is B.\<close>

theorem card_shows_upper_initial_witness:
  \<open>\<not> truthy (avatar profile_bob)
   \<and> sublist ''<span>B</span>'' (createProfileCard example_browser profile_bob)\<close>
proof -
  have a: "\<not> truthy (avatar profile_bob)"
    by (simp add: truthy_def profile_eval)
  from card_shows_upper_initial [OF a, of example_browser] a show ?thesis
    by (simp add: string_eval profile_eval)
qed

section \<open>A failed load on the list page\<close>

lemma loadProfiles_404:
  "loadProfiles (HttpResponse False body) st =
     loadProfiles_catch (ThrownError ''Failed to load profiles'') st"
  by (simp add: loadProfiles_def)

lemma loadProfiles_catch_grid:
  assumes "dom st ''profilesGrid'' = Some old"
  shows "dom (loadProfiles_catch e st) ''profilesGrid'' = Some (error_html load_error_message)"
  using assms by (simp add: loadProfiles_catch_def showError_def dom_set_content)

lemma renderProfiles_empty:
  assumes "dom st ''profilesGrid'' = Some old" and "heap st (filteredProfiles st) = []"
  shows "dom (renderProfiles br st) ''profilesGrid'' = Some empty_state_html"
  using assms by (simp add: renderProfiles_def dom_set_content)

lemma init_404_grid:
  assumes "d ''profilesGrid'' = Some old"
  shows "dom (init br (HttpResponse False body) d) ''profilesGrid'' = Some empty_state_html"
proof -
  let ?st = "updateStats br (setupSearch (loadProfiles (HttpResponse False body) (initial_state d)))"
  have g: "dom ?st ''profilesGrid'' = Some (error_html load_error_message)"
    using assms
    by (simp add: updateStats_frame setupSearch_frame loadProfiles_404 loadProfiles_catch_grid
          initial_state_def)
  have "heap ?st (filteredProfiles ?st) = []"
    by (simp add: updateStats_frame setupSearch_frame loadProfiles_404 loadProfiles_catch_frame
          initial_state_def)
  with g show ?thesis
    unfolding init_def by (rule renderProfiles_empty)
qed

lemma error_not_in_empty_state: "\<not> sublist (escapeHtml load_error_message) empty_state_html"
  by (simp add: load_error_message_def empty_state_html_def a_breve_def i_circ_def
        sublist_code prefix_code)

text \<open>
  Claim C2 does not hold of the script. On a 404 response \<^verbatim>\<open>loadProfiles\<close> writes the
  error message into the grid, and then the last step of the initialisation,
  \<^verbatim>\<open>renderProfiles\<close>, finds the filtered list empty and replaces the message by the
  placeholder for a search without results, in which the error message does not occur.
\<close>

theorem init_404_overwrites_error:
  "dom (loadProfiles (HttpResponse False None) (initial_state example_document)) ''profilesGrid''
     = Some (error_html load_error_message)
   \<and> dom (init br (HttpResponse False None) example_document) ''profilesGrid''
     = Some empty_state_html
   \<and> \<not> sublist (escapeHtml load_error_message) empty_state_html"
proof -
  have g: "example_document ''profilesGrid'' = Some []"
    by (simp add: example_document_def)
  then have "dom (initial_state example_document) ''profilesGrid'' = Some []"
    by (simp add: initial_state_def)
  then have "dom (loadProfiles (HttpResponse False None) (initial_state example_document))
      ''profilesGrid'' = Some (error_html load_error_message)"
    unfolding loadProfiles_404 by (rule loadProfiles_catch_grid)
  moreover have "dom (init br (HttpResponse False None) example_document) ''profilesGrid''
      = Some empty_state_html"
    using g by (rule init_404_grid)
  ultimately show ?thesis
    using error_not_in_empty_state by simp
qed

section \<open>A failed load on the statistics page\<close>

lemma s_set_content_frame:
  "s_profilesData (s_set_content i v st) = s_profilesData st"
  "s_console (s_set_content i v st) = s_console st"
  "s_timers (s_set_content i v st) = s_timers st"
  "s_now_calls (s_set_content i v st) = s_now_calls st"
  by (simp_all add: s_set_content_def split: option.splits)

lemma s_dom_set_content:
  "s_dom (s_set_content i v st) = (if s_dom st i = None then s_dom st else (s_dom st)(i \<mapsto> v))"
  by (simp add: s_set_content_def split: option.splits)

lemma s_animateValue_frame:
  "s_dom (s_animateValue i a b c st) = s_dom st"
  "s_profilesData (s_animateValue i a b c st) = s_profilesData st"
  "s_console (s_animateValue i a b c st) = s_console st"
  by (simp_all add: s_animateValue_def split: option.splits)

lemma updateOverviewStats_frame:
  "s_dom (updateOverviewStats br st) = s_dom st"
  "s_profilesData (updateOverviewStats br st) = s_profilesData st"
  "s_console (updateOverviewStats br st) = s_console st"
  by (simp_all add: updateOverviewStats_def Let_def s_animateValue_frame split: prod.splits)

text \<open>The fetch of the server statistics: its failure puts the message into the page.\<close>

lemma loadServerStats_failure_message:
  assumes "s_dom st ''serverStats'' = Some old"
  shows "s_dom (loadServerStats (HttpResponse False body) st) ''serverStats''
           = Some stats_unavailable_html"
  using assms by (simp add: loadServerStats_def loadServerStats_catch_def s_dom_set_content)

text \<open>
  Claim C6 does not hold of the fetch of the profiles. On a 404 response the
  \<^verbatim>\<open>loadProfiles\<close> of the statistics page logs the error and changes nothing in the
  document; the page then shows two empty top lists and no message.
\<close>

theorem stats_loadProfiles_404_silent:
  "s_dom (stats_loadProfiles (HttpResponse False None) st) = s_dom st
   \<and> s_console (stats_loadProfiles (HttpResponse False None) st)
       = s_console st @ [(''Error loading profiles:'', ThrownError ''Failed to load profiles'')]
   \<and> s_dom (renderTopProfiles (updateOverviewStats br
         (stats_loadProfiles (HttpResponse False None) (stats_initial_state d))))
       = (\<lambda>x. if x = ''topPosts'' \<or> x = ''topFollowers'' then map_option (\<lambda>old. []) (d x) else d x)"
  by (auto simp: stats_loadProfiles_def renderTopProfiles_def Let_def s_dom_set_content
        updateOverviewStats_frame s_set_content_frame stats_initial_state_def
        topPosts_def topFollowers_def array_sort_def fun_eq_iff)

section \<open>The counter animation\<close>

lemma tick_zero_increment:
  assumes "t_increment t = 0"
  shows "tick t = (t, False)"
  using assms by (simp add: tick_def)

lemma animate_run_Some_increment:
  assumes "animate_run t = Some vs"
  shows "t_increment t \<noteq> 0"
proof (rule animate_run.raw_induct [where P = "\<lambda>t vs. t_increment t \<noteq> 0", OF _ assms])
  fix run' :: "timer \<Rightarrow> int list option" and u ws
  assume IH: "\<And>x y. run' x = Some y \<Longrightarrow> t_increment x \<noteq> 0"
    and step: "(case tick u of
                  (t', cleared) \<Rightarrow>
                    if cleared then Some [displayed t']
                    else Option.bind (run' t') (\<lambda>vs. Some (displayed t' # vs))) = Some ws"
  show "t_increment u \<noteq> 0"
  proof
    assume z: "t_increment u = 0"
    with step obtain xs where "run' u = Some xs"
      by (auto simp: tick_zero_increment split: Option.bind_splits)
    then have "t_increment u \<noteq> 0" by (rule IH)
    with z show False by simp
  qed
qed

lemma animate_ticks_zero_increment:
  assumes "t_increment t = 0"
  shows "animate_ticks n t = None"
  using assms by (induction n) (simp_all add: tick_zero_increment)

text \<open>
  Claim C5 does not hold for the target 0. The increment is then 0, the test that clears
  the interval asks for an increment above or below 0, and so the interval is never
  cleared: every tick leaves the timer as it is and writes 0 again.
\<close>

theorem animateValue_zero_target_never_cleared:
  "animate_run (new_timer elem_id 0 0 1000) = None
   \<and> (\<forall>n. animate_ticks n (new_timer elem_id 0 0 1000) = None)
   \<and> tick (new_timer elem_id 0 0 1000) = (new_timer elem_id 0 0 1000, False)
   \<and> displayed (new_timer elem_id 0 0 1000) = 0"
proof -
  have z: "t_increment (new_timer elem_id 0 0 1000) = 0"
    by (simp add: new_timer_def)
  have "animate_run (new_timer elem_id 0 0 1000) = None"
  proof (cases "animate_run (new_timer elem_id 0 0 1000)")
    case None
    then show ?thesis .
  next
    case (Some vs)
    then have "t_increment (new_timer elem_id 0 0 1000) \<noteq> 0"
      by (rule animate_run_Some_increment)
    with z show ?thesis by simp
  qed
  with z show ?thesis
    by (simp add: animate_ticks_zero_increment tick_zero_increment displayed_def new_timer_def)
qed

text \<open>
  For a target above 0 the claim holds: the interval is cleared by its 63rd tick, the
  numbers displayed before are not above the target, and the last one is the target.
\<close>

lemma animate_ticks_run:
  assumes "animate_ticks n t = Some vs"
  shows "animate_run t = Some vs"
  using assms
proof (induction n arbitrary: t vs)
  case 0
  then show ?case by simp
next
  case (Suc n)
  obtain t' cleared where tk: "tick t = (t', cleared)" by (cases "tick t")
  show ?case
  proof (cases cleared)
    case True
    with Suc.prems tk show ?thesis
      by (subst animate_run.simps) simp
  next
    case False
    with Suc.prems tk obtain ws where ws: "animate_ticks n t' = Some ws" and vs: "vs = displayed t' # ws"
      by (auto split: Option.bind_splits)
    from Suc.IH [OF ws] have "animate_run t' = Some ws" .
    with False tk vs show ?thesis
      by (subst animate_run.simps) simp
  qed
qed

lemma animate_ticks_up:
  assumes "0 < t_increment t"
    and "\<forall>j \<in> {1 .. m}. t_current t + of_nat j * t_increment t < t_end t"
    and "t_end t \<le> t_current t + of_nat (Suc m) * t_increment t"
  shows "animate_ticks (Suc m) t =
     Some (map (\<lambda>j. \<lfloor>t_current t + of_nat j * t_increment t\<rfloor>) [1 ..< Suc m] @ [\<lfloor>t_end t\<rfloor>])"
  using assms
proof (induction m arbitrary: t)
  case 0
  then show ?case
    by (simp add: tick_def displayed_def)
next
  case (Suc m)
  let ?t' = "t\<lparr>t_current := t_current t + t_increment t\<rparr>"
  from Suc.prems(2) have "t_current t + of_nat 1 * t_increment t < t_end t"
    by (metis atLeastAtMost_iff le_add1 plus_1_eq_Suc order_refl)
  then have below: "t_current t + t_increment t < t_end t" by simp
  with Suc.prems(1) have tk: "tick t = (?t', False)"
    by (simp add: tick_def)
  have inc: "0 < t_increment ?t'" using Suc.prems(1) by simp
  have lt: "\<forall>j \<in> {1 .. m}. t_current ?t' + of_nat j * t_increment ?t' < t_end ?t'"
  proof
    fix j assume "j \<in> {1 .. m}"
    then have "Suc j \<in> {1 .. Suc m}" by simp
    with Suc.prems(2) have "t_current t + of_nat (Suc j) * t_increment t < t_end t" by blast
    then show "t_current ?t' + of_nat j * t_increment ?t' < t_end ?t'"
      by (simp add: algebra_simps)
  qed
  have ge: "t_end ?t' \<le> t_current ?t' + of_nat (Suc m) * t_increment ?t'"
    using Suc.prems(3) by (simp add: algebra_simps)
  have ih: "animate_ticks (Suc m) ?t' =
     Some (map (\<lambda>j. \<lfloor>t_current ?t' + of_nat j * t_increment ?t'\<rfloor>) [1 ..< Suc m] @ [\<lfloor>t_end ?t'\<rfloor>])"
    using inc lt ge by (rule Suc.IH)
  have shift: "map (\<lambda>j. \<lfloor>t_current t + of_nat j * t_increment t\<rfloor>) [1 ..< Suc (Suc m)]
      = \<lfloor>t_current t + t_increment t\<rfloor>
        # map (\<lambda>j. \<lfloor>t_current ?t' + of_nat j * t_increment ?t'\<rfloor>) [1 ..< Suc m]"
  proof -
    have "[1 ..< Suc (Suc m)] = 1 # map Suc [1 ..< Suc m]"
      using upt_conv_Cons [of 1 "Suc (Suc m)"] by (simp add: map_Suc_upt del: upt_Suc)
    then show ?thesis
      by (simp add: comp_def algebra_simps del: upt_Suc)
  qed
  show ?case
    unfolding shift
    using ih tk by (simp add: displayed_def del: upt_Suc)
qed

lemma animateValue_positive_target:
  fixes e :: rat
  assumes "0 < e"
  shows "animate_run (new_timer elem_id 0 e 1000)
           = Some (map (\<lambda>j. \<lfloor>of_nat j * (e * 2 / 125)\<rfloor>) [1 ..< 63] @ [\<lfloor>e\<rfloor>])"
    and "\<forall>j \<in> {1 ..< 63}. \<lfloor>of_nat j * (e * 2 / 125)\<rfloor> \<le> \<lfloor>e\<rfloor>"
proof -
  let ?t = "new_timer elem_id 0 e 1000"
  have inc: "t_increment ?t = e * 2 / 125" and cur: "t_current ?t = 0" and en: "t_end ?t = e"
    by (simp_all add: new_timer_def)
  have below: "of_nat j * (e * 2 / 125) < e" if "j \<le> 62" for j :: nat
  proof -
    from that have "(of_nat j :: rat) \<le> 62" by simp
    with assms have "of_nat j * (e * 2 / 125) \<le> 62 * (e * 2 / 125)"
      by (intro mult_right_mono) simp_all
    also from assms have "62 * (e * 2 / 125) < e" by simp
    finally show ?thesis .
  qed
  have "animate_ticks (Suc 62) ?t =
     Some (map (\<lambda>j. \<lfloor>t_current ?t + of_nat j * t_increment ?t\<rfloor>) [1 ..< Suc 62] @ [\<lfloor>t_end ?t\<rfloor>])"
  proof (rule animate_ticks_up)
    show "0 < t_increment ?t" using assms by (simp add: inc)
    show "\<forall>j \<in> {1 .. 62}. t_current ?t + of_nat j * t_increment ?t < t_end ?t"
      using below by (simp add: inc cur en)
    show "t_end ?t \<le> t_current ?t + of_nat (Suc 62) * t_increment ?t"
      using assms by (simp add: inc cur en)
  qed
  then have "animate_ticks (Suc 62) ?t =
     Some (map (\<lambda>j. \<lfloor>of_nat j * (e * 2 / 125)\<rfloor>) [1 ..< 63] @ [\<lfloor>e\<rfloor>])"
    by (simp only: inc cur en add_0_left) simp
  then show "animate_run ?t = Some (map (\<lambda>j. \<lfloor>of_nat j * (e * 2 / 125)\<rfloor>) [1 ..< 63] @ [\<lfloor>e\<rfloor>])"
    by (rule animate_ticks_run)
  show "\<forall>j \<in> {1 ..< 63}. \<lfloor>of_nat j * (e * 2 / 125)\<rfloor> \<le> \<lfloor>e\<rfloor>"
  proof
    fix j :: nat assume "j \<in> {1 ..< 63}"
    then have "j \<le> 62" by simp
    then have "of_nat j * (e * 2 / 125) \<le> e" using below [of j] by simp
    then show "\<lfloor>of_nat j * (e * 2 / 125)\<rfloor> \<le> \<lfloor>e\<rfloor>" by (rule floor_mono)
  qed
qed

section \<open>Active profiles\<close>

lemma daysSince_le_30: "daysSince now t \<le> 30 \<longleftrightarrow> now - t \<le> 30 * 24 * 60 * 60 * 1000"
proof -
  have "daysSince now t \<le> 30 \<longleftrightarrow> (of_int (now - t) :: rat) \<le> of_int 2592000000"
    by (simp add: daysSince_def field_simps)
  also have "\<dots> \<longleftrightarrow> now - t \<le> 2592000000"
    by (rule of_int_le_iff)
  finally show ?thesis by simp
qed

lemma lastStatus_None: "lastStatus br p = None \<longleftrightarrow> \<not> truthy (last_status_at p)"
  by (simp add: lastStatus_def truthy_def split: option.splits)

lemma spec_active_truthy: "spec_active br now p \<Longrightarrow> truthy (last_status_at p)"
  by (simp add: spec_active_def truthy_def split: option.splits)

lemma active_filter_Cons:
  "fst (active_filter br k (p # ps)) =
     (if spec_active br (dateNow br k) p then [p] else [])
     @ fst (active_filter br (if truthy (last_status_at p) then Suc k else k) ps)"
  by (auto simp: lastStatus_def spec_active_def truthy_def daysSince_le_30 Let_def
        split: option.splits prod.splits)

lemma active_filter_indexed:
  "fst (active_filter br k ps) =
     map (\<lambda>i. ps ! i)
       (filter (\<lambda>i. spec_active br (dateNow br (reading_index k ps i)) (ps ! i)) [0 ..< length ps])"
proof (induction ps arbitrary: k)
  case Nil
  then show ?case by simp
next
  case (Cons p ps)
  let ?k = "if truthy (last_status_at p) then Suc k else k"
  have idx: "[0 ..< length (p # ps)] = 0 # map Suc [0 ..< length ps]"
    using upt_conv_Cons [of 0 "Suc (length ps)"] by (simp add: map_Suc_upt del: upt_Suc)
  have r: "reading_index k (p # ps) (Suc i) = reading_index ?k ps i" for i
    by (simp add: reading_index_def)
  have r0: "reading_index k (p # ps) 0 = k"
    by (simp add: reading_index_def)
  show ?case
    unfolding active_filter_Cons idx Cons.IH [of ?k]
    by (simp add: filter_map comp_def r r0 del: upt_Suc)
qed

lemma active_filter_dated:
  "\<forall>p \<in> set (fst (active_filter br k ps)). last_status_at p \<noteq> None"
proof (induction ps arbitrary: k)
  case Nil
  then show ?case by simp
next
  case (Cons p ps)
  have "spec_active br (dateNow br k) p \<Longrightarrow> last_status_at p \<noteq> None"
    by (auto simp: spec_active_def split: option.splits)
  with Cons.IH show ?case
    unfolding active_filter_Cons by auto
qed

lemma updateStats_active_timer:
  assumes "dom st ''activeProfiles'' \<noteq> None"
  shows "last (timers (updateStats br st)) =
     new_timer ''activeProfiles'' 0
       (of_int (int (length (fst (active_filter br (now_calls st) (heap st (profilesData st)))))))
       1000"
  using assms
  by (auto simp: updateStats_def Let_def animateValue_def animateValue_frame
        split: prod.splits option.splits)

lemma updateOverviewStats_active_timer:
  assumes "s_dom st ''activeProfiles'' \<noteq> None"
  shows "last (s_timers (updateOverviewStats br st)) =
     new_timer ''activeProfiles'' 0
       (of_int (int (length (fst (active_filter br (s_now_calls st) (s_profilesData st))))))
       1000"
  using assms
  by (auto simp: updateOverviewStats_def Let_def s_animateValue_def s_animateValue_frame
        split: prod.splits option.splits)

text \<open>
  Claim C10. The filter behind the statistic keeps the \<open>i\<close>-th profile exactly when the
  profile has a time of last status and that time is at most 30 days, in milliseconds,
  before the clock reading taken for this profile; no profile without the field is kept.
  On both pages the number of profiles kept is the target of the counter
  \<^verbatim>\<open>activeProfiles\<close>, when the page has that element.
\<close>

theorem active_profiles_counted:
  "fst (active_filter br k ps) =
     map (\<lambda>i. ps ! i)
       (filter (\<lambda>i. spec_active br (dateNow br (reading_index k ps i)) (ps ! i)) [0 ..< length ps])
   \<and> (\<forall>p \<in> set (fst (active_filter br k ps)). last_status_at p \<noteq> None)
   \<and> (dom st ''activeProfiles'' \<noteq> None \<longrightarrow>
        last (timers (updateStats br st)) =
          new_timer ''activeProfiles'' 0
            (of_int (int (length (fst (active_filter br (now_calls st) (heap st (profilesData st)))))))
            1000)
   \<and> (s_dom sst ''activeProfiles'' \<noteq> None \<longrightarrow>
        last (s_timers (updateOverviewStats br sst)) =
          new_timer ''activeProfiles'' 0
            (of_int (int (length (fst (active_filter br (s_now_calls sst) (s_profilesData sst))))))
            1000)"
  using active_filter_indexed [of br k ps] active_filter_dated [of br k ps]
    updateStats_active_timer [of st br] updateOverviewStats_active_timer [of sst br]
  by blast

text \<open>
  Claim C10 on the example statistics page. The first profile posted exactly 30 days
  before the first clock reading and is counted; the second posted a year earlier; the
  third has no date; the fourth is the first again, but its clock reading is a
  millisecond later, and it is not counted.
\<close>

lemma example_active:
  "fst (active_filter example_browser 0 [profile_ana, profile_bob, empty_profile, profile_ana])
     = [profile_ana]"
  by (simp add: lastStatus_def daysSince_def example_browser_def Let_def profile_eval)

theorem active_profiles_counted_witness:
  "profile_ana \<in> set (fst (active_filter example_browser 0
       [profile_ana, profile_bob, empty_profile, profile_ana]))
   \<and> last_status_at profile_ana \<noteq> None
   \<and> s_dom example_stats_state ''activeProfiles'' \<noteq> None
   \<and> last (s_timers (updateOverviewStats example_browser example_stats_state)) =
       new_timer ''activeProfiles'' 0 1 1000
   \<and> dom (loadProfiles (HttpResponse True (Some [profile_ana, profile_bob, empty_profile, profile_ana]))
           (initial_state example_document)) ''activeProfiles'' \<noteq> None
   \<and> last (timers (updateStats example_browser
        (loadProfiles (HttpResponse True (Some [profile_ana, profile_bob, empty_profile, profile_ana]))
           (initial_state example_document)))) =
       new_timer ''activeProfiles'' 0 1 1000"
proof -
  let ?ps = "[profile_ana, profile_bob, empty_profile, profile_ana]"
  let ?st = "loadProfiles (HttpResponse True (Some ?ps)) (initial_state example_document)"
  have s: "s_dom example_stats_state ''activeProfiles'' \<noteq> None"
    "s_now_calls example_stats_state = 0" "s_profilesData example_stats_state = ?ps"
    by (simp_all add: example_stats_state_def stats_initial_state_def)
  have d: "dom ?st ''activeProfiles'' \<noteq> None" "now_calls ?st = 0"
    "heap ?st (profilesData ?st) = ?ps"
    by (simp_all add: loadProfiles_success_dom loadProfiles_success initial_state_def
          example_document_def loadProfiles_def new_array_def Let_def)
  have l: "last_status_at profile_ana \<noteq> None"
    by (simp add: profile_eval)
  from active_profiles_counted [of example_browser 0 ?ps ?st example_stats_state] s d l
  show ?thesis
    by (simp add: example_active del: active_filter.simps)
qed

end
